theory Spec2Isabelle
  imports Complex_Main
begin

section \<open>Numbers, vectors and array reads\<close>

text \<open>
  JavaScript numbers are read as real numbers: \<open>Math.hypot\<close>, \<open>Math.cbrt\<close>,
  \<open>Math.sin\<close> and the comparisons against thresholds are the mathematical ones, with no
  rounding. Each call of \<open>Math.random()\<close> is an explicit argument of the function that
  makes it, a real number in \<open>[0, 1)\<close>.
\<close>

datatype error = TypeError

text \<open>\<open>xs[i]\<close> on a JavaScript array: \<open>undefined\<close> (here \<open>None\<close>) out of range.\<close>

definition elem_at :: "'a list \<Rightarrow> nat \<Rightarrow> 'a option" where
  "elem_at xs i = (if i < length xs then Some (xs ! i) else None)"

definition hypot :: "real \<Rightarrow> real \<Rightarrow> real" where
  "hypot a b = sqrt (a\<^sup>2 + b\<^sup>2)"

text \<open>\<open>MathUtils.lerp(x, y, t)\<close> of three.js.\<close>

definition lerp :: "real \<Rightarrow> real \<Rightarrow> real \<Rightarrow> real" where
  "lerp x y t = (1 - t) * x + t * y"

text \<open>\<open>MathUtils.randFloat(low, high)\<close> of three.js, on the draw \<open>u\<close> of \<open>Math.random()\<close>.\<close>

definition randFloat :: "real \<Rightarrow> real \<Rightarrow> real \<Rightarrow> real" where
  "randFloat u low high = low + u * (high - low)"

record Vector3 =
  vx :: real
  vy :: real
  vz :: real

definition Vector3_new :: "real \<Rightarrow> real \<Rightarrow> real \<Rightarrow> Vector3" where
  "Vector3_new a b c = \<lparr>vx = a, vy = b, vz = c\<rparr>"

text \<open>\<open>Vector3.lerp(v, alpha)\<close>: every component moves by \<open>alpha\<close> of its difference to \<open>v\<close>.\<close>

definition v_lerp :: "Vector3 \<Rightarrow> Vector3 \<Rightarrow> real \<Rightarrow> Vector3" where
  "v_lerp p v alpha =
     \<lparr>vx = vx p + (vx v - vx p) * alpha,
      vy = vy p + (vy v - vy p) * alpha,
      vz = vz p + (vz v - vz p) * alpha\<rparr>"

definition multiplyScalar :: "Vector3 \<Rightarrow> real \<Rightarrow> Vector3" where
  "multiplyScalar p s = \<lparr>vx = vx p * s, vy = vy p * s, vz = vz p * s\<rparr>"

text \<open>\<open>Vector3.length()\<close> and \<open>Vector3.distanceTo(v)\<close>.\<close>

definition v_length :: "Vector3 \<Rightarrow> real" where
  "v_length p = sqrt ((vx p)\<^sup>2 + (vy p)\<^sup>2 + (vz p)\<^sup>2)"

definition distanceTo :: "Vector3 \<Rightarrow> Vector3 \<Rightarrow> real" where
  "distanceTo p v = sqrt ((vx p - vx v)\<^sup>2 + (vy p - vy v)\<^sup>2 + (vz p - vz v)\<^sup>2)"

text \<open>The distance of a point from the vertical (y) axis: the radius of the cone at that point.\<close>

definition horizontalRadius :: "Vector3 \<Rightarrow> real" where
  "horizontalRadius p = sqrt ((vx p)\<^sup>2 + (vz p)\<^sup>2)"

section \<open>types.ts\<close>

datatype AppMode = AppMode_TREE | AppMode_SCATTER | AppMode_ZOOM

datatype HandGesture = UNKNOWN | FIST | OPEN_PALM | PINCH

record HandState =
  gesture :: HandGesture
  position :: "real \<times> real"
  isPresent :: bool

datatype ParticleType = SPHERE | CUBE | CANDY

record ParticleData =
  pd_id :: string
  pd_initialPos :: Vector3
  pd_scatterPos :: Vector3
  pd_color :: string
  pd_type :: ParticleType
  pd_scale :: real

record PhotoData =
  ph_id :: string
  ph_url :: string
  ph_aspectRatio :: real
  ph_initialPos :: Vector3
  ph_scatterPos :: Vector3

section \<open>The landmark source\<close>

text \<open>
  One normalized landmark of the hand-landmark model, and the result of
  \<open>detectForVideo\<close>: \<open>landmarks\<close> is a list of hands, each a list of points, and may be
  missing altogether.
\<close>

record NormalizedLandmark =
  lx :: real
  ly :: real

record HandLandmarkerResult =
  landmarks :: "NormalizedLandmark list list option"

text \<open>
  \<open>Math.hypot(a.x - b.x, a.y - b.y)\<close> for two array reads \<open>a\<close> and \<open>b\<close>: reading a
  property of \<open>undefined\<close> raises a TypeError.
\<close>

definition hypot_between :: "NormalizedLandmark option \<Rightarrow> NormalizedLandmark option \<Rightarrow> error + real" where
  "hypot_between a b =
     (case a of
        None \<Rightarrow> Inl TypeError
      | Some p \<Rightarrow>
          (case b of
             None \<Rightarrow> Inl TypeError
           | Some q \<Rightarrow> Inr (hypot (lx p - lx q) (ly p - ly q))))"

text \<open>
  \<open>tips.forEach(tip => acc += Math.hypot(tip.x - wrist.x, tip.y - wrist.y))\<close>: the
  accumulating loop over the fingertips, stopping at the first TypeError.
\<close>

fun forEach_tip :: "NormalizedLandmark option list \<Rightarrow> NormalizedLandmark option \<Rightarrow> real \<Rightarrow> error + real" where
  "forEach_tip [] wrist acc = Inr acc"
| "forEach_tip (tip # tips) wrist acc =
     (case hypot_between tip wrist of
        Inl e \<Rightarrow> Inl e
      | Inr d \<Rightarrow> forEach_tip tips wrist (acc + d))"

section \<open>components/HandTracker.tsx\<close>

text \<open>
  \<open>detect\<close>, for a ready video and a loaded landmarker: the value is the hand state handed
  to \<open>onHandUpdate\<close>, or the error raised before that call.
\<close>

definition detect :: "HandLandmarkerResult \<Rightarrow> error + HandState" where
  "detect results =
     (case landmarks results of
        None \<Rightarrow> Inr \<lparr>gesture = UNKNOWN, position = (0, 0), isPresent = False\<rparr>
      | Some hands \<Rightarrow>
          if length hands > 0 then
            (let lms = hands ! 0;
                 thumbTip = elem_at lms 4;
                 indexTip = elem_at lms 8
             in case hypot_between thumbTip indexTip of
                  Inl e \<Rightarrow> Inl e
                | Inr pinchDist \<Rightarrow>
                    (let wrist = elem_at lms 0;
                         tips = map (elem_at lms) [8, 12, 16, 20]
                     in case forEach_tip tips wrist 0 of
                          Inl e \<Rightarrow> Inl e
                        | Inr distSum \<Rightarrow>
                            (let avgDistToWrist = distSum / 4;
                                 g = (if pinchDist < 0.05 then PINCH
                                      else if avgDistToWrist < 0.25 then FIST
                                      else if avgDistToWrist > 0.35 then OPEN_PALM
                                      else UNKNOWN)
                             in case wrist of
                                  None \<Rightarrow> Inl TypeError
                                | Some w \<Rightarrow>
                                    Inr \<lparr>gesture = g,
                                         position = ((lx w - 0.5) * (- 2), (ly w - 0.5) * (- 2)),
                                         isPresent = True\<rparr>)))
          else Inr \<lparr>gesture = UNKNOWN, position = (0, 0), isPresent = False\<rparr>)"

section \<open>The application: STATE, Particle and processGestures\<close>

datatype Mode = TREE | SCATTER | FOCUS

text \<open>
  A three.js mesh or group, as far as the application reads and writes it. \<open>STATE.focusTarget\<close>
  and \<open>this.mesh === focusTargetMesh\<close> compare object references; every three.js object has a
  unique \<open>id\<close>, which stands for the reference here.
\<close>

record Object3D =
  mesh_id :: nat
  mesh_position :: Vector3
  mesh_rotation :: Vector3
  mesh_scale :: Vector3

record Particle =
  mesh :: Object3D
  ptype :: string
  isDust :: bool
  posTree :: Vector3
  posScatter :: Vector3
  baseScale :: real
  spinSpeed :: Vector3

record Hand =
  detected :: bool
  hand_x :: real
  hand_y :: real

record STATE =
  mode :: Mode
  focusIndex :: int
  focusTarget :: "nat option"
  hand :: Hand
  rotation :: "real \<times> real"

definition STATE_init :: STATE where
  "STATE_init =
     \<lparr>mode = TREE, focusIndex = - 1, focusTarget = None,
      hand = \<lparr>detected = False, hand_x = 0, hand_y = 0\<rparr>,
      rotation = (0, 0)\<rparr>"

text \<open>
  \<open>processGestures(result)\<close> on the global \<open>STATE\<close> and \<open>particleSystem\<close>; \<open>random\<close> is the
  draw of \<open>Math.random()\<close> that picks the photo. An exception leaves the assignments made
  before it in place, so the value is the error raised, if any, and the state reached.
\<close>

definition processGestures ::
    "HandLandmarkerResult \<Rightarrow> Particle list \<Rightarrow> real \<Rightarrow> STATE \<Rightarrow> error option \<times> STATE" where
  "processGestures result particleSystem random st =
     (case landmarks result of
        None \<Rightarrow> (None, st\<lparr>hand := (hand st)\<lparr>detected := False\<rparr>\<rparr>)
      | Some hands \<Rightarrow>
          if length hands > 0 then
            (let st1 = st\<lparr>hand := (hand st)\<lparr>detected := True\<rparr>\<rparr>;
                 lm = hands ! 0
             in case elem_at lm 9 of
                  None \<Rightarrow> (Some TypeError, st1)
                | Some palm \<Rightarrow>
                    (let st2 = st1\<lparr>hand := (hand st1)\<lparr>hand_x := (lx palm - 0.5) * 2,
                                                      hand_y := (ly palm - 0.5) * 2\<rparr>\<rparr>;
                         thumb = elem_at lm 4;
                         index = elem_at lm 8;
                         wrist = elem_at lm 0
                     in case hypot_between thumb index of
                          Inl e \<Rightarrow> (Some e, st2)
                        | Inr pinchDist \<Rightarrow>
                            (let tips = [elem_at lm 8, elem_at lm 12, elem_at lm 16, elem_at lm 20]
                             in case forEach_tip tips wrist 0 of
                                  Inl e \<Rightarrow> (Some e, st2)
                                | Inr distSum \<Rightarrow>
                                    (let avgDist = distSum / 4
                                     in if pinchDist < 0.05 then
                                          (if mode st2 \<noteq> FOCUS then
                                             (let st3 = st2\<lparr>mode := FOCUS\<rparr>;
                                                  photos = filter (\<lambda>p. ptype p = ''PHOTO'') particleSystem
                                              in if length photos \<noteq> 0 then
                                                   (None, st3\<lparr>focusTarget :=
                                                      Some (mesh_id (mesh (photos !
                                                        nat \<lfloor>random * real (length photos)\<rfloor>)))\<rparr>)
                                                 else (None, st3))
                                           else (None, st2))
                                        else if avgDist < 0.25 then
                                          (None, st2\<lparr>mode := TREE, focusTarget := None\<rparr>)
                                        else if avgDist > 0.4 then
                                          (None, st2\<lparr>mode := SCATTER, focusTarget := None\<rparr>)
                                        else (None, st2)))))
          else (None, st\<lparr>hand := (hand st)\<lparr>detected := False\<rparr>\<rparr>))"

text \<open>
  \<open>predictWebcam\<close> calls \<open>processGestures\<close> once for each new video frame: a run over a
  list of detection results, each with its draw of \<open>Math.random()\<close>, listing the mode after
  each call.
\<close>

fun modes_after :: "(HandLandmarkerResult \<times> real) list \<Rightarrow> Particle list \<Rightarrow> STATE \<Rightarrow> Mode list" where
  "modes_after [] particleSystem st = []"
| "modes_after ((result, random) # rest) particleSystem st =
     (let st' = snd (processGestures result particleSystem random st)
      in mode st' # modes_after rest particleSystem st')"

section \<open>Particle.update: the per-frame animator\<close>

record Camera =
  cam_position :: Vector3

record Clock =
  elapsedTime :: real

text \<open>
  Of \<open>mainGroup\<close> the animator uses only
  \<open>new THREE.Matrix4().copy(mainGroup.matrixWorld).invert()\<close> applied to a point: the map
  from world to group coordinates, three.js code outside the repository and so a field here.
\<close>

record Group =
  worldToLocal :: "Vector3 \<Rightarrow> Vector3"

text \<open>
  \<open>Particle.update\<close>. \<open>lookAt\<close> stands for three.js's \<open>Object3D.lookAt\<close>, library code
  that is not part of the repository: given the mesh and the point to face, the rotation it
  assigns.
\<close>

definition Particle_update ::
    "(Object3D \<Rightarrow> Vector3 \<Rightarrow> Vector3) \<Rightarrow> real \<Rightarrow> Mode \<Rightarrow> nat option \<Rightarrow> Camera \<Rightarrow> Clock \<Rightarrow> Group
      \<Rightarrow> Particle \<Rightarrow> Particle" where
  "Particle_update lookAt dt md focusTargetMesh camera clock mainGroup this =
     (let isTarget = (Some (mesh_id (mesh this)) = focusTargetMesh);
          target = (if md = SCATTER then posScatter this
                    else if md = FOCUS then
                      (if isTarget then worldToLocal mainGroup (Vector3_new 0 2 35)
                       else posScatter this)
                    else posTree this);
          lerpSpeed = (if md = FOCUS \<and> isTarget then 5.0 else 2.0);
          m1 = (mesh this)\<lparr>mesh_position :=
                  v_lerp (mesh_position (mesh this)) target (lerpSpeed * dt)\<rparr>;
          r = mesh_rotation m1;
          m2 = (if md = SCATTER then
                  m1\<lparr>mesh_rotation :=
                       \<lparr>vx = vx r + vx (spinSpeed this) * dt,
                        vy = vy r + vy (spinSpeed this) * dt,
                        vz = vz r + vz (spinSpeed this) * dt\<rparr>\<rparr>
                else if md = TREE then
                  m1\<lparr>mesh_rotation :=
                       \<lparr>vx = lerp (vx r) 0 dt,
                        vy = vy r + 0.5 * dt,
                        vz = lerp (vz r) 0 dt\<rparr>\<rparr>
                else m1);
          m3 = (if md = FOCUS \<and> isTarget then
                  m2\<lparr>mesh_rotation := lookAt m2 (cam_position camera)\<rparr>
                else m2);
          s = (if isDust this then
                 (if md = TREE then 0
                  else baseScale this *
                         (0.8 + 0.4 * sin (elapsedTime clock * 4 + real (mesh_id (mesh this)))))
               else if md = SCATTER \<and> ptype this = ''PHOTO'' then baseScale this * 2.5
               else if md = FOCUS then (if isTarget then 4.5 else baseScale this * 0.8)
               else baseScale this)
      in this\<lparr>mesh := m3\<lparr>mesh_scale := v_lerp (mesh_scale m3) (Vector3_new s s s) (4 * dt)\<rparr>\<rparr>)"

text \<open>
  \<open>animate\<close> updates every particle of \<open>particleSystem\<close> with the mode and focus target of
  \<open>STATE\<close>.
\<close>

definition animate_particles ::
    "(Object3D \<Rightarrow> Vector3 \<Rightarrow> Vector3) \<Rightarrow> real \<Rightarrow> STATE \<Rightarrow> Camera \<Rightarrow> Clock \<Rightarrow> Group
      \<Rightarrow> Particle list \<Rightarrow> Particle list" where
  "animate_particles lookAt dt st camera clock mainGroup particleSystem =
     map (Particle_update lookAt dt (mode st) (focusTarget st) camera clock mainGroup) particleSystem"

text \<open>
  The target position and the easing speed that \<open>Particle.update\<close> computes at its start,
  named for the statements about them.
\<close>

definition update_target :: "Mode \<Rightarrow> nat option \<Rightarrow> Group \<Rightarrow> Particle \<Rightarrow> Vector3" where
  "update_target md focusTargetMesh mainGroup this =
     (if md = SCATTER then posScatter this
      else if md = FOCUS then
        (if Some (mesh_id (mesh this)) = focusTargetMesh
         then worldToLocal mainGroup (Vector3_new 0 2 35)
         else posScatter this)
      else posTree this)"

definition update_lerpSpeed :: "Mode \<Rightarrow> nat option \<Rightarrow> Particle \<Rightarrow> real" where
  "update_lerpSpeed md focusTargetMesh this =
     (if md = FOCUS \<and> Some (mesh_id (mesh this)) = focusTargetMesh then 5.0 else 2.0)"

section \<open>components/TreeScene.tsx\<close>

text \<open>
  The position part of the frame callback of \<open>InstancedGroup\<close> for instance \<open>i\<close>: the
  position read back from the instance matrix is moved toward the target and, outside TREE
  mode, floated along y.
\<close>

definition InstancedGroup_frame ::
    "AppMode \<Rightarrow> real \<Rightarrow> real \<Rightarrow> nat \<Rightarrow> ParticleData \<Rightarrow> Vector3 \<Rightarrow> Vector3" where
  "InstancedGroup_frame md clockElapsed delta i particle pos =
     (let targetPos = (if md = AppMode_TREE then pd_initialPos particle else pd_scatterPos particle);
          p1 = v_lerp pos targetPos (delta * 2.5)
      in if md \<noteq> AppMode_TREE then
           p1\<lparr>vy := vy p1 + sin (clockElapsed * 0.5 + real i) * 0.005\<rparr>
         else p1)"

text \<open>
  The effect of \<open>TreeScene\<close> that selects the photo to zoom into: the value is the next
  \<open>focusedPhotoId\<close>. \<open>!focusedPhotoId\<close> holds for \<open>null\<close> and for the empty string.
\<close>

definition TreeScene_effect :: "AppMode \<Rightarrow> PhotoData list \<Rightarrow> real \<Rightarrow> string option \<Rightarrow> string option" where
  "TreeScene_effect md photos random focusedPhotoId =
     (if md = AppMode_ZOOM \<and> length photos > 0 then
        (if focusedPhotoId = None \<or> focusedPhotoId = Some [] then
           Some (ph_id (photos ! nat \<lfloor>random * real (length photos)\<rfloor>))
         else focusedPhotoId)
      else if md \<noteq> AppMode_ZOOM then None
      else focusedPhotoId)"

section \<open>constants.ts and services/geometryService.ts\<close>

definition COLORS_MATTE_GREEN :: string where "COLORS_MATTE_GREEN = ''#2D4F38''"
definition COLORS_METALLIC_GOLD :: string where "COLORS_METALLIC_GOLD = ''#D4AF37''"
definition COLORS_CHRISTMAS_RED :: string where "COLORS_CHRISTMAS_RED = ''#8A1C1C''"
definition COLORS_WHITE :: string where "COLORS_WHITE = ''#F0F0F0''"

definition CONFIG_PARTICLE_COUNT :: nat where "CONFIG_PARTICLE_COUNT = 450"
definition CONFIG_TREE_HEIGHT :: real where "CONFIG_TREE_HEIGHT = 14"
definition CONFIG_TREE_RADIUS :: real where "CONFIG_TREE_RADIUS = 5"
definition CONFIG_SCATTER_RADIUS :: real where "CONFIG_SCATTER_RADIUS = 8"

definition calculateTreePosition :: "real \<Rightarrow> real \<Rightarrow> Vector3" where
  "calculateTreePosition index totalCount =
     (let y = (index / totalCount) * CONFIG_TREE_HEIGHT - CONFIG_TREE_HEIGHT / 2;
          radius = CONFIG_TREE_RADIUS * (1 - (y + CONFIG_TREE_HEIGHT / 2) / CONFIG_TREE_HEIGHT);
          angle = index * 0.5;
          x = cos angle * radius;
          z = sin angle * radius
      in Vector3_new x y z)"

text \<open>
  \<open>calculateScatterPosition\<close>, on its three draws of \<open>Math.random()\<close> (inside
  \<open>randFloat\<close>), in the order the code makes them. \<open>Math.cbrt\<close> is the real cube root.
  The doubles of the code differ from these reals by the rounding of each operation: at a
  draw next to 1 the rounded cube root is 1, and the rounded coordinates can lie a few units
  in the last place outside the radius that the exact point stays within.
\<close>

definition calculateScatterPosition :: "real \<Rightarrow> real \<Rightarrow> real \<Rightarrow> Vector3" where
  "calculateScatterPosition u_theta u_phi u_r =
     (let theta = randFloat u_theta 0 (pi * 2);
          phi = randFloat u_phi 0 pi;
          r = CONFIG_SCATTER_RADIUS * root 3 (randFloat u_r 0 1);
          x = r * sin phi * cos theta;
          y = r * sin phi * sin theta;
          z = r * cos phi
      in Vector3_new x y z)"

text \<open>The decimal digits of \<open>i\<close>, for the template strings \<open>`p-${i}`\<close> and \<open>`photo-${i}`\<close>.\<close>

fun string_of_nat :: "nat \<Rightarrow> string" where
  "string_of_nat n =
     (if n < 10 then [char_of (48 + n)]
      else string_of_nat (n div 10) @ [char_of (48 + n mod 10)])"

declare string_of_nat.simps [simp del]

text \<open>
  \<open>generateParticles(count)\<close>: the loop over \<open>i\<close>, pushing one particle in each round. The
  source of randomness is the sequence \<open>rnd\<close> of the values \<open>Math.random()\<close> returns; each
  round makes five draws: the kind, the scale, and the three of \<open>calculateScatterPosition\<close>.
\<close>

function generateParticles_loop ::
    "nat \<Rightarrow> nat \<Rightarrow> (nat \<Rightarrow> real) \<Rightarrow> ParticleData list \<Rightarrow> ParticleData list" where
  "generateParticles_loop i count rnd particles =
     (if i < count then
        (let randomVal = rnd (5 * i);
             u = rnd (5 * i + 1);
             (type, color, scale) =
               (if randomVal < 0.50 then (SPHERE, COLORS_MATTE_GREEN, randFloat u 0.15 0.35)
                else if randomVal < 0.75 then (SPHERE, COLORS_METALLIC_GOLD, randFloat u 0.2 0.4)
                else if randomVal < 0.90 then (CUBE, COLORS_CHRISTMAS_RED, randFloat u 0.2 0.45)
                else (CANDY, COLORS_WHITE, randFloat u 0.1 0.2))
         in generateParticles_loop (i + 1) count rnd
              (particles @
               [\<lparr>pd_id = ''p-'' @ string_of_nat i,
                 pd_initialPos = calculateTreePosition (real i) (real count),
                 pd_scatterPos =
                   calculateScatterPosition (rnd (5 * i + 2)) (rnd (5 * i + 3)) (rnd (5 * i + 4)),
                 pd_color = color,
                 pd_type = type,
                 pd_scale = scale\<rparr>]))
      else particles)"
  by pat_completeness auto
termination
  by (relation "measure (\<lambda>(i, count, rnd, particles). count - i)") auto

declare generateParticles_loop.simps [simp del]

definition generateParticles :: "nat \<Rightarrow> (nat \<Rightarrow> real) \<Rightarrow> ParticleData list" where
  "generateParticles count rnd = generateParticles_loop 0 count rnd []"

text \<open>
  \<open>processPhotos(urls)\<close>: \<open>urls.map\<close> visits the urls in order; photo \<open>i\<close> makes the three
  draws of \<open>calculateScatterPosition\<close>. The tree index is the floor of the exact product
  \<open>(i / urls.length) * 450\<close>; the code floors the rounded double, which is the integer
  below where the exact product is an integer and the double falls just under it (229
  for \<open>i = 23\<close> of 45 urls, where the exact floor is 230). No statement below reads the
  tree position of a photo.
\<close>

definition processPhotos :: "string list \<Rightarrow> (nat \<Rightarrow> real) \<Rightarrow> PhotoData list" where
  "processPhotos urls rnd =
     map (\<lambda>(i, url).
            (let treeIndex = \<lfloor>(real i / real (length urls)) * real CONFIG_PARTICLE_COUNT\<rfloor>;
                 pos = calculateTreePosition (of_int treeIndex) (real CONFIG_PARTICLE_COUNT);
                 pos = multiplyScalar pos 1.3
             in \<lparr>ph_id = ''photo-'' @ string_of_nat i,
                 ph_url = url,
                 ph_aspectRatio = 1,
                 ph_initialPos = pos,
                 ph_scatterPos =
                   calculateScatterPosition (rnd (3 * i)) (rnd (3 * i + 1)) (rnd (3 * i + 2))\<rparr>))
         (zip [0 ..< length urls] urls)"

text \<open>
  The conversion from spherical to Cartesian coordinates that both scatter functions end
  with: radius \<open>r\<close>, azimuth \<open>theta\<close>, polar angle \<open>phi\<close>.
\<close>

definition spherical :: "real \<Rightarrow> real \<Rightarrow> real \<Rightarrow> Vector3" where
  "spherical r theta phi =
     Vector3_new (r * sin phi * cos theta) (r * sin phi * sin theta) (r * cos phi)"

section \<open>Particle.calculatePositions\<close>

definition CONFIG_particles_treeHeight :: real where "CONFIG_particles_treeHeight = 24"
definition CONFIG_particles_treeRadius :: real where "CONFIG_particles_treeRadius = 8"

text \<open>
  The tree position of \<open>Particle.calculatePositions\<close>, on its three draws: \<open>u_t\<close> for
  \<open>t\<close>, \<open>u_angle\<close> for the phase and \<open>u_r\<close> for the radius. \<open>Math.pow(t, 0.8)\<close> is
  \<open>t powr 0.8\<close>.
\<close>

definition calculatePositions_rMax :: "real \<Rightarrow> real" where
  "calculatePositions_rMax t =
     (let rMax = CONFIG_particles_treeRadius * (1.0 - t)
      in if rMax < 0.5 then 0.5 else rMax)"

definition calculatePositions_tree :: "real \<Rightarrow> real \<Rightarrow> real \<Rightarrow> Vector3" where
  "calculatePositions_tree u_t u_angle u_r =
     (let h = CONFIG_particles_treeHeight;
          halfH = h / 2;
          t = u_t;
          t = t powr 0.8;
          y = (t * h) - halfH;
          rMax = calculatePositions_rMax t;
          angle = t * 50 * pi + u_angle * pi;
          r = rMax * (0.8 + u_r * 0.4)
      in Vector3_new (cos angle * r) y (sin angle * r))"

text \<open>
  The scatter position of \<open>Particle.calculatePositions\<close>, on its three draws: the radius,
  \<open>theta\<close> and \<open>phi\<close>. \<open>Math.acos\<close> is \<open>arccos\<close>.
\<close>

definition calculatePositions_rScatter :: "bool \<Rightarrow> real \<Rightarrow> real" where
  "calculatePositions_rScatter dust u = (if dust then 12 + u * 20 else 8 + u * 12)"

definition calculatePositions_scatter :: "bool \<Rightarrow> real \<Rightarrow> real \<Rightarrow> real \<Rightarrow> Vector3" where
  "calculatePositions_scatter dust u_r u_theta u_phi =
     (let rScatter = calculatePositions_rScatter dust u_r;
          theta = u_theta * pi * 2;
          phi = arccos (2 * u_phi - 1)
      in Vector3_new (rScatter * sin phi * cos theta)
                     (rScatter * sin phi * sin theta)
                     (rScatter * cos phi))"

section \<open>The quantities the classifier is specified by\<close>

text \<open>
  The two measurements as the specification words them, on a hand \<open>L\<close> with all its points:
  the pinch distance is the distance between the thumb tip \<open>L[4]\<close> and the index tip
  \<open>L[8]\<close>; the spread is the mean distance of the four fingertips \<open>L[8]\<close>, \<open>L[12]\<close>,
  \<open>L[16]\<close>, \<open>L[20]\<close> to the wrist \<open>L[0]\<close>.
\<close>

definition euclidean :: "NormalizedLandmark \<Rightarrow> NormalizedLandmark \<Rightarrow> real" where
  "euclidean p q = sqrt ((lx p - lx q)\<^sup>2 + (ly p - ly q)\<^sup>2)"

definition spec_pinchDistance :: "NormalizedLandmark list \<Rightarrow> real" where
  "spec_pinchDistance L = euclidean (L ! 4) (L ! 8)"

definition spec_spread :: "NormalizedLandmark list \<Rightarrow> real" where
  "spec_spread L =
     (euclidean (L ! 8) (L ! 0) + euclidean (L ! 12) (L ! 0)
      + euclidean (L ! 16) (L ! 0) + euclidean (L ! 20) (L ! 0)) / 4"

text \<open>
  The gesture a full hand carries for \<open>processGestures\<close>, which names no gesture: the
  specification's names for the branches of its threshold chain, whose open-palm threshold
  is 0.4.
\<close>

definition processGestures_gesture :: "NormalizedLandmark list \<Rightarrow> HandGesture" where
  "processGestures_gesture L =
     (if spec_pinchDistance L < 0.05 then PINCH
      else if spec_spread L < 0.25 then FIST
      else if spec_spread L > 0.4 then OPEN_PALM
      else UNKNOWN)"

text \<open>The detection result whose first hand is \<open>L\<close>.\<close>

definition one_hand :: "NormalizedLandmark list \<Rightarrow> HandLandmarkerResult" where
  "one_hand L = \<lparr>landmarks = Some [L]\<rparr>"

text \<open>
  A hand of 21 points for the examples: the wrist at index 0, the thumb tip at 4, the palm
  centre at 9, and the four fingertips 8, 12, 16 and 20 at one point; the other joints sit
  on the wrist.
\<close>

definition hand21 ::
    "NormalizedLandmark \<Rightarrow> NormalizedLandmark \<Rightarrow> NormalizedLandmark \<Rightarrow> NormalizedLandmark
      \<Rightarrow> NormalizedLandmark list" where
  "hand21 w thumb palm tip =
     [w, w, w, w, thumb, w, w, w, tip, palm, w,
      w, tip, w, w, w, tip, w, w, w, tip]"

definition pt :: "real \<Rightarrow> real \<Rightarrow> NormalizedLandmark" where
  "pt a b = \<lparr>lx = a, ly = b\<rparr>"

text \<open>
  Four example hands with the wrist at \<open>(0.5, 0.5)\<close>: thumb on the fingertips (a pinch),
  fingertips 0.1 from the wrist (a fist), 0.5 from it (an open palm), and 0.3 from it with
  the thumb away from them (the dead zone).
\<close>

definition pinch_hand :: "NormalizedLandmark list" where
  "pinch_hand = hand21 (pt 0.5 0.5) (pt 0.8 0.5) (pt 0.5 0.5) (pt 0.8 0.5)"

definition fist_hand :: "NormalizedLandmark list" where
  "fist_hand = hand21 (pt 0.5 0.5) (pt 0.5 0.5) (pt 0.5 0.5) (pt 0.6 0.5)"

definition open_hand :: "NormalizedLandmark list" where
  "open_hand = hand21 (pt 0.5 0.5) (pt 0.5 0.5) (pt 0.5 0.5) (pt 1 0.5)"

definition unknown_hand :: "NormalizedLandmark list" where
  "unknown_hand = hand21 (pt 0.5 0.5) (pt 0.5 0.5) (pt 0.5 0.5) (pt 0.8 0.5)"

text \<open>An example scene: a camera on the z axis, a clock at 0, a group that is not moved.\<close>

definition example_camera :: Camera where
  "example_camera = \<lparr>cam_position = \<lparr>vx = 0, vy = 2, vz = 50\<rparr>\<rparr>"

definition example_clock :: Clock where
  "example_clock = \<lparr>elapsedTime = 0\<rparr>"

definition example_group :: Group where
  "example_group = \<lparr>worldToLocal = (\<lambda>v. v)\<rparr>"

definition example_lookAt :: "Object3D \<Rightarrow> Vector3 \<Rightarrow> Vector3" where
  "example_lookAt m v = \<lparr>vx = 0, vy = 0, vz = 0\<rparr>"

text \<open>An example ornament of \<open>generateParticles\<close>, with its scatter position on the x axis.\<close>

definition example_data :: ParticleData where
  "example_data =
     \<lparr>pd_id = ''p-0'',
      pd_initialPos = \<lparr>vx = 0, vy = 1, vz = 0\<rparr>,
      pd_scatterPos = \<lparr>vx = 2, vy = 0, vz = 0\<rparr>,
      pd_color = ''#2D4F38'',
      pd_type = SPHERE,
      pd_scale = 1 / 4\<rparr>"

text \<open>An example particle: mesh \<open>i\<close> of the given kind, at rest at the origin with scale 1.\<close>

definition origin :: Vector3 where
  "origin = \<lparr>vx = 0, vy = 0, vz = 0\<rparr>"

definition example_particle :: "nat \<Rightarrow> string \<Rightarrow> bool \<Rightarrow> Particle" where
  "example_particle i kind dust =
     \<lparr>mesh = \<lparr>mesh_id = i, mesh_position = origin, mesh_rotation = origin,
              mesh_scale = \<lparr>vx = 1, vy = 1, vz = 1\<rparr>\<rparr>,
      ptype = kind, isDust = dust,
      posTree = \<lparr>vx = 0, vy = 1, vz = 0\<rparr>,
      posScatter = \<lparr>vx = 3, vy = 0, vz = 4\<rparr>,
      baseScale = 1,
      spinSpeed = \<lparr>vx = 1, vy = 1, vz = 1\<rparr>\<rparr>"

section \<open>Reading landmarks\<close>


lemma elem_at_Some: "i < length xs \<Longrightarrow> elem_at xs i = Some (xs ! i)"
  by (simp add: elem_at_def)

lemma elem_at_None: "length xs \<le> i \<Longrightarrow> elem_at xs i = None"
  by (simp add: elem_at_def)

lemma hypot_zero: "hypot a 0 = \<bar>a\<bar>"
  by (simp add: hypot_def)

lemma hypot_between_Some:
  "hypot_between (Some p) (Some q) = Inr (euclidean p q)"
  by (simp add: hypot_between_def euclidean_def hypot_def)

lemma hypot_between_None: "hypot_between a None = Inl TypeError" "hypot_between None b = Inl TypeError"
  by (simp_all add: hypot_between_def split: option.splits)

lemma forEach_tip_None:
  "None \<in> set tips \<Longrightarrow> forEach_tip tips wrist acc = Inl TypeError"
proof (induction tips arbitrary: acc)
  case Nil
  then show ?case by simp
next
  case (Cons tip tips)
  show ?case
  proof (cases "hypot_between tip wrist")
    case (Inl e)
    then show ?thesis by (cases e) simp
  next
    case (Inr d)
    have "tip \<noteq> None"
    proof
      assume "tip = None"
      then have "hypot_between tip wrist = Inl TypeError"
        by (simp add: hypot_between_None)
      with Inr show False by simp
    qed
    with Cons.prems have "None \<in> set tips" by auto
    with Cons.IH Inr show ?thesis by simp
  qed
qed

lemma forEach_tip_four:
  "forEach_tip [Some a, Some b, Some c, Some d] (Some w) 0 =
     Inr (euclidean a w + euclidean b w + euclidean c w + euclidean d w)"
  by (simp add: hypot_between_Some)

lemma full_hand_reads:
  assumes "21 \<le> length L"
  shows "elem_at L 0 = Some (L ! 0)" "elem_at L 4 = Some (L ! 4)" "elem_at L 8 = Some (L ! 8)"
    "elem_at L 9 = Some (L ! 9)" "elem_at L 12 = Some (L ! 12)" "elem_at L 16 = Some (L ! 16)"
    "elem_at L 20 = Some (L ! 20)"
  using assms by (auto simp: elem_at_def)

lemma detect_full:
  assumes "21 \<le> length L"
  shows "detect \<lparr>landmarks = Some (L # others)\<rparr> =
           Inr \<lparr>gesture =
                  (if spec_pinchDistance L < 0.05 then PINCH
                   else if spec_spread L < 0.25 then FIST
                   else if spec_spread L > 0.35 then OPEN_PALM
                   else UNKNOWN),
                position = ((lx (L ! 0) - 0.5) * (- 2), (ly (L ! 0) - 0.5) * (- 2)),
                isPresent = True\<rparr>"
  unfolding detect_def spec_pinchDistance_def spec_spread_def
  by (simp only: HandLandmarkerResult.simps option.case list.size length_Cons nth_Cons_0
        full_hand_reads [OF assms] list.map hypot_between_Some forEach_tip_four sum.case Let_def)
     simp

lemma detect_short:
  assumes "length L < 21"
  shows "detect \<lparr>landmarks = Some (L # others)\<rparr> = Inl TypeError"
proof -
  have n: "elem_at L 20 = None" using assms by (simp add: elem_at_def)
  have "forEach_tip (map (elem_at L) [8, 12, 16, 20]) (elem_at L 0) 0 = Inl TypeError"
    by (rule forEach_tip_None) (simp add: n)
  then show ?thesis
    by (cases "hypot_between (elem_at L 4) (elem_at L 8)")
       (auto simp: detect_def Let_def intro: error.exhaust split: sum.splits)
qed


lemma processGestures_full:
  assumes "21 \<le> length L"
  shows "processGestures \<lparr>landmarks = Some (L # others)\<rparr> ps u st =
    (None,
     (let st2 = st\<lparr>hand := (hand st)\<lparr>detected := True, hand_x := (lx (L ! 9) - 0.5) * 2,
                                     hand_y := (ly (L ! 9) - 0.5) * 2\<rparr>\<rparr>;
          photos = filter (\<lambda>p. ptype p = ''PHOTO'') ps
      in if spec_pinchDistance L < 0.05 then
           (if mode st \<noteq> FOCUS then
              (if photos \<noteq> [] then
                 st2\<lparr>mode := FOCUS,
                     focusTarget := Some (mesh_id (mesh (photos ! nat \<lfloor>u * real (length photos)\<rfloor>)))\<rparr>
               else st2\<lparr>mode := FOCUS\<rparr>)
            else st2)
         else if spec_spread L < 0.25 then st2\<lparr>mode := TREE, focusTarget := None\<rparr>
         else if spec_spread L > 0.4 then st2\<lparr>mode := SCATTER, focusTarget := None\<rparr>
         else st2))"
  unfolding processGestures_def spec_pinchDistance_def spec_spread_def
  by (simp only: HandLandmarkerResult.simps option.case list.size length_Cons nth_Cons_0
        full_hand_reads [OF assms] list.map hypot_between_Some forEach_tip_four sum.case Let_def)
     simp

lemma processGestures_short:
  assumes "length L < 21"
  shows "fst (processGestures \<lparr>landmarks = Some (L # others)\<rparr> ps u st) = Some TypeError"
    and "mode (snd (processGestures \<lparr>landmarks = Some (L # others)\<rparr> ps u st)) = mode st"
    and "focusTarget (snd (processGestures \<lparr>landmarks = Some (L # others)\<rparr> ps u st)) = focusTarget st"
    and "detected (hand (snd (processGestures \<lparr>landmarks = Some (L # others)\<rparr> ps u st)))"
proof -
  have n: "elem_at L 20 = None" using assms by (simp add: elem_at_def)
  have f: "forEach_tip [elem_at L 8, elem_at L 12, elem_at L 16, elem_at L 20] (elem_at L 0) 0
             = Inl TypeError"
    by (rule forEach_tip_None) (simp add: n)
  have e: "\<And>e. e = TypeError" by (rule error.exhaust) 
  show "fst (processGestures \<lparr>landmarks = Some (L # others)\<rparr> ps u st) = Some TypeError"
    by (cases "elem_at L 9"; cases "hypot_between (elem_at L 4) (elem_at L 8)")
       (simp_all add: processGestures_def Let_def f e del: forEach_tip.simps)
  show "mode (snd (processGestures \<lparr>landmarks = Some (L # others)\<rparr> ps u st)) = mode st"
    by (cases "elem_at L 9"; cases "hypot_between (elem_at L 4) (elem_at L 8)")
       (simp_all add: processGestures_def Let_def f del: forEach_tip.simps)
  show "focusTarget (snd (processGestures \<lparr>landmarks = Some (L # others)\<rparr> ps u st)) = focusTarget st"
    by (cases "elem_at L 9"; cases "hypot_between (elem_at L 4) (elem_at L 8)")
       (simp_all add: processGestures_def Let_def f del: forEach_tip.simps)
  show "detected (hand (snd (processGestures \<lparr>landmarks = Some (L # others)\<rparr> ps u st)))"
    by (cases "elem_at L 9"; cases "hypot_between (elem_at L 4) (elem_at L 8)")
       (simp_all add: processGestures_def Let_def f del: forEach_tip.simps)
qed

lemma processGestures_absent:
  "processGestures \<lparr>landmarks = None\<rparr> ps u st = (None, st\<lparr>hand := (hand st)\<lparr>detected := False\<rparr>\<rparr>)"
  "processGestures \<lparr>landmarks = Some []\<rparr> ps u st = (None, st\<lparr>hand := (hand st)\<lparr>detected := False\<rparr>\<rparr>)"
  by (simp_all add: processGestures_def)

lemma detect_absent:
  "detect \<lparr>landmarks = None\<rparr> = Inr \<lparr>gesture = UNKNOWN, position = (0, 0), isPresent = False\<rparr>"
  "detect \<lparr>landmarks = Some []\<rparr> = Inr \<lparr>gesture = UNKNOWN, position = (0, 0), isPresent = False\<rparr>"
  by (simp_all add: detect_def)

section \<open>Example hands\<close>

lemma hand21_reads:
  "length (hand21 w th pa ti) = 21"
  "hand21 w th pa ti ! 0 = w" "hand21 w th pa ti ! 4 = th" "hand21 w th pa ti ! 9 = pa"
  "hand21 w th pa ti ! 8 = ti" "hand21 w th pa ti ! 12 = ti" "hand21 w th pa ti ! 16 = ti"
  "hand21 w th pa ti ! 20 = ti"
  by (simp_all add: hand21_def)

lemma euclidean_same_y: "euclidean (pt a c) (pt b c) = \<bar>a - b\<bar>"
  by (simp add: euclidean_def pt_def)

lemma hand21_measures:
  "spec_pinchDistance (hand21 w (pt a c) pa (pt b c)) = \<bar>a - b\<bar>"
  "spec_spread (hand21 (pt a c) th pa (pt b c)) = \<bar>b - a\<bar>"
  by (simp_all add: spec_pinchDistance_def spec_spread_def hand21_reads euclidean_same_y)

section \<open>The gesture classifier\<close>

text \<open>
  Claim C2. For every landmark sample whose hand has all 21 points, the classifier returns,
  in strict priority order: PINCH when the distance between thumb tip and index tip is
  below 0.05, whatever the spread; otherwise FIST when the mean distance of the fingertips
  8, 12, 16, 20 to the wrist is below 0.25; otherwise OPEN_PALM when the spread exceeds the
  open threshold; otherwise UNKNOWN. The open threshold is 0.35 in \<open>detect\<close> and 0.4 in
  \<open>processGestures\<close>, where the four outcomes are the mode changes to FOCUS, TREE, SCATTER
  and no change. In particular a spread of 0.30 with a pinch distance of at least 0.05 is
  in the dead zone: UNKNOWN, and no change of mode or focus target.
\<close>

theorem C2_classifier_priority:
  assumes "21 \<le> length L"
  shows "(\<exists>hs. detect \<lparr>landmarks = Some (L # others)\<rparr> = Inr hs \<and> isPresent hs \<and>
            gesture hs =
              (if spec_pinchDistance L < 0.05 then PINCH
               else if spec_spread L < 0.25 then FIST
               else if spec_spread L > 0.35 then OPEN_PALM
               else UNKNOWN))
       \<and> fst (processGestures \<lparr>landmarks = Some (L # others)\<rparr> ps u st) = None
       \<and> mode (snd (processGestures \<lparr>landmarks = Some (L # others)\<rparr> ps u st)) =
            (if spec_pinchDistance L < 0.05 then FOCUS
             else if spec_spread L < 0.25 then TREE
             else if spec_spread L > 0.4 then SCATTER
             else mode st)
       \<and> (spec_spread L = 0.30 \<and> 0.05 \<le> spec_pinchDistance L \<longrightarrow>
            (\<exists>hs. detect \<lparr>landmarks = Some (L # others)\<rparr> = Inr hs \<and> gesture hs = UNKNOWN)
            \<and> mode (snd (processGestures \<lparr>landmarks = Some (L # others)\<rparr> ps u st)) = mode st
            \<and> focusTarget (snd (processGestures \<lparr>landmarks = Some (L # others)\<rparr> ps u st))
                = focusTarget st)"
proof -
  note d = detect_full [OF assms, of others]
  note p = processGestures_full [OF assms, of others ps u st]
  have a: "\<exists>hs. detect \<lparr>landmarks = Some (L # others)\<rparr> = Inr hs \<and> isPresent hs \<and>
            gesture hs =
              (if spec_pinchDistance L < 0.05 then PINCH
               else if spec_spread L < 0.25 then FIST
               else if spec_spread L > 0.35 then OPEN_PALM
               else UNKNOWN)"
    unfolding d by simp
  have b: "fst (processGestures \<lparr>landmarks = Some (L # others)\<rparr> ps u st) = None"
    unfolding p by simp
  have c: "mode (snd (processGestures \<lparr>landmarks = Some (L # others)\<rparr> ps u st)) =
            (if spec_pinchDistance L < 0.05 then FOCUS
             else if spec_spread L < 0.25 then TREE
             else if spec_spread L > 0.4 then SCATTER
             else mode st)"
    unfolding p by (simp add: Let_def)
  have e: "spec_spread L = 0.30 \<and> 0.05 \<le> spec_pinchDistance L \<longrightarrow>
            (\<exists>hs. detect \<lparr>landmarks = Some (L # others)\<rparr> = Inr hs \<and> gesture hs = UNKNOWN)
            \<and> mode (snd (processGestures \<lparr>landmarks = Some (L # others)\<rparr> ps u st)) = mode st
            \<and> focusTarget (snd (processGestures \<lparr>landmarks = Some (L # others)\<rparr> ps u st))
                = focusTarget st"
    unfolding d p by (simp add: Let_def)
  from a b c e show ?thesis by blast
qed

theorem C2_classifier_priority_witness:
  "21 \<le> length (hand21 (pt 0.5 0.5) (pt 0.5 0.5) (pt 0.5 0.5) (pt 0.8 0.5))
   \<and> spec_spread (hand21 (pt 0.5 0.5) (pt 0.5 0.5) (pt 0.5 0.5) (pt 0.8 0.5)) = 0.30
   \<and> 0.05 \<le> spec_pinchDistance (hand21 (pt 0.5 0.5) (pt 0.5 0.5) (pt 0.5 0.5) (pt 0.8 0.5))
   \<and> (\<exists>hs. detect \<lparr>landmarks = Some [hand21 (pt 0.5 0.5) (pt 0.5 0.5) (pt 0.5 0.5) (pt 0.8 0.5)]\<rparr>
             = Inr hs \<and> gesture hs = UNKNOWN)
   \<and> mode (snd (processGestures
        \<lparr>landmarks = Some [hand21 (pt 0.5 0.5) (pt 0.5 0.5) (pt 0.5 0.5) (pt 0.8 0.5)]\<rparr>
        [] 0 STATE_init)) = TREE"
proof -
  let ?L = "hand21 (pt 0.5 0.5) (pt 0.5 0.5) (pt 0.5 0.5) (pt 0.8 0.5)"
  have len: "21 \<le> length ?L" by (simp add: hand21_reads)
  have sp: "spec_spread ?L = 0.30" by (simp add: hand21_measures)
  have pd: "0.05 \<le> spec_pinchDistance ?L" by (simp add: hand21_measures)
  have m: "mode STATE_init = TREE" by (simp add: STATE_init_def)
  from C2_classifier_priority [OF len, of "[]" "[]" 0 STATE_init] sp pd m
  show ?thesis using len by simp
qed

section \<open>Absent and short samples\<close>

text \<open>
  Claim C7, as stated, fails: a hand of 20 points is not treated as absent. \<open>detect\<close> reads
  landmark 20 of it, which is \<open>undefined\<close>, and the property read raises a TypeError before
  any hand state is handed on; \<open>processGestures\<close> raises the same way.
\<close>

theorem C7_short_sample_counterexample:
  "length (replicate 20 (pt 0.5 0.5)) < 21
   \<and> detect \<lparr>landmarks = Some [replicate 20 (pt 0.5 0.5)]\<rparr> = Inl TypeError
   \<and> detect \<lparr>landmarks = Some [replicate 20 (pt 0.5 0.5)]\<rparr>
       \<noteq> Inr \<lparr>gesture = UNKNOWN, position = (0, 0), isPresent = False\<rparr>
   \<and> fst (processGestures \<lparr>landmarks = Some [replicate 20 (pt 0.5 0.5)]\<rparr> [] 0 STATE_init)
       = Some TypeError"
  by (simp add: detect_def processGestures_def elem_at_def hypot_between_def Let_def)

text \<open>
  Claim C7, amended. An absent sample (no landmark list, or an empty list of hands) raises
  no error: \<open>detect\<close> outputs \<open>isPresent = false\<close>, gesture UNKNOWN and pointer \<open>(0, 0)\<close>,
  and \<open>processGestures\<close> only records that no hand is detected, leaving mode and focus
  target as they are. A sample whose first hand has fewer than 21 points is not treated as
  absent: neither function checks the number of points, and both raise a TypeError on the
  missing landmark; \<open>processGestures\<close> has by then marked the hand as detected, and leaves
  mode and focus target unchanged.
\<close>

theorem C7_absent_and_short_samples:
  "detect \<lparr>landmarks = None\<rparr> = Inr \<lparr>gesture = UNKNOWN, position = (0, 0), isPresent = False\<rparr>
   \<and> detect \<lparr>landmarks = Some []\<rparr> = Inr \<lparr>gesture = UNKNOWN, position = (0, 0), isPresent = False\<rparr>
   \<and> processGestures \<lparr>landmarks = None\<rparr> ps u st = (None, st\<lparr>hand := (hand st)\<lparr>detected := False\<rparr>\<rparr>)
   \<and> processGestures \<lparr>landmarks = Some []\<rparr> ps u st = (None, st\<lparr>hand := (hand st)\<lparr>detected := False\<rparr>\<rparr>)
   \<and> (length L < 21 \<longrightarrow>
        detect \<lparr>landmarks = Some (L # others)\<rparr> = Inl TypeError
        \<and> fst (processGestures \<lparr>landmarks = Some (L # others)\<rparr> ps u st) = Some TypeError
        \<and> mode (snd (processGestures \<lparr>landmarks = Some (L # others)\<rparr> ps u st)) = mode st
        \<and> focusTarget (snd (processGestures \<lparr>landmarks = Some (L # others)\<rparr> ps u st)) = focusTarget st
        \<and> detected (hand (snd (processGestures \<lparr>landmarks = Some (L # others)\<rparr> ps u st))))"
  using detect_absent processGestures_absent [of ps u st] detect_short [of L others]
    processGestures_short [of L others ps u st]
  by simp

theorem C7_absent_and_short_samples_witness:
  "length [pt 0.5 0.5, pt 0.5 0.6] < 21
   \<and> detect \<lparr>landmarks = Some [[pt 0.5 0.5, pt 0.5 0.6]]\<rparr> = Inl TypeError
   \<and> fst (processGestures \<lparr>landmarks = Some [[pt 0.5 0.5, pt 0.5 0.6]]\<rparr> [] 0 STATE_init)
       = Some TypeError
   \<and> mode (snd (processGestures \<lparr>landmarks = Some [[pt 0.5 0.5, pt 0.5 0.6]]\<rparr> [] 0 STATE_init))
       = TREE"
  using C7_absent_and_short_samples [of "[]" 0 STATE_init "[pt 0.5 0.5, pt 0.5 0.6]" "[]"]
  by (simp add: STATE_init_def)

section \<open>The pointer\<close>

text \<open>
  Claim C9, as stated, fails for \<open>processGestures\<close>: for a hand with the wrist at
  \<open>(0.2, 0.3)\<close> and landmark 9 at \<open>(0.6, 0.6)\<close> it stores the pointer \<open>(0.2, 0.2)\<close>, where
  the wrist formula of the claim gives \<open>(0.6, 0.4)\<close>.
\<close>

theorem C9_pointer_counterexample:
  "21 \<le> length (hand21 (pt 0.2 0.3) (pt 0.5 0.5) (pt 0.6 0.6) (pt 0.8 0.5))
   \<and> hand_x (hand (snd (processGestures
        \<lparr>landmarks = Some [hand21 (pt 0.2 0.3) (pt 0.5 0.5) (pt 0.6 0.6) (pt 0.8 0.5)]\<rparr>
        [] 0 STATE_init))) = 0.2
   \<and> (lx (hand21 (pt 0.2 0.3) (pt 0.5 0.5) (pt 0.6 0.6) (pt 0.8 0.5) ! 0) - 0.5) * (- 2) = 0.6
   \<and> hand_y (hand (snd (processGestures
        \<lparr>landmarks = Some [hand21 (pt 0.2 0.3) (pt 0.5 0.5) (pt 0.6 0.6) (pt 0.8 0.5)]\<rparr>
        [] 0 STATE_init))) = 0.2
   \<and> (ly (hand21 (pt 0.2 0.3) (pt 0.5 0.5) (pt 0.6 0.6) (pt 0.8 0.5) ! 0) - 0.5) * (- 2) = 0.4"
proof -
  let ?L = "hand21 (pt 0.2 0.3) (pt 0.5 0.5) (pt 0.6 0.6) (pt 0.8 0.5)"
  have len: "21 \<le> length ?L" by (simp add: hand21_reads)
  show ?thesis
    unfolding processGestures_full [OF len]
    by (simp add: hand21_reads Let_def pt_def)
qed

text \<open>
  Claim C9, amended. For every sample with a hand of all 21 points, the pointer that
  \<open>detect\<close> outputs is the wrist \<open>L[0]\<close> mapped from \<open>[0, 1]\<close> to \<open>[-1, 1]\<close> with both axes
  inverted: \<open>px = (L[0].x - 0.5) * -2\<close> and \<open>py = (L[0].y - 0.5) * -2\<close>. The pointer that
  \<open>processGestures\<close> stores is taken from the palm centre \<open>L[9]\<close> and is not inverted:
  \<open>x = (L[9].x - 0.5) * 2\<close> and \<open>y = (L[9].y - 0.5) * 2\<close>.
\<close>

theorem C9_pointer_outputs:
  assumes "21 \<le> length L"
  shows "(\<exists>hs. detect \<lparr>landmarks = Some (L # others)\<rparr> = Inr hs \<and> isPresent hs \<and>
            position hs = ((lx (L ! 0) - 0.5) * (- 2), (ly (L ! 0) - 0.5) * (- 2)))
       \<and> detected (hand (snd (processGestures \<lparr>landmarks = Some (L # others)\<rparr> ps u st)))
       \<and> hand_x (hand (snd (processGestures \<lparr>landmarks = Some (L # others)\<rparr> ps u st)))
           = (lx (L ! 9) - 0.5) * 2
       \<and> hand_y (hand (snd (processGestures \<lparr>landmarks = Some (L # others)\<rparr> ps u st)))
           = (ly (L ! 9) - 0.5) * 2"
  unfolding detect_full [OF assms] processGestures_full [OF assms]
  by (simp add: Let_def)

theorem C9_pointer_outputs_witness:
  "21 \<le> length (hand21 (pt 0.2 0.3) (pt 0.5 0.5) (pt 0.6 0.6) (pt 0.8 0.5))
   \<and> (\<exists>hs. detect \<lparr>landmarks = Some [hand21 (pt 0.2 0.3) (pt 0.5 0.5) (pt 0.6 0.6) (pt 0.8 0.5)]\<rparr>
            = Inr hs \<and> isPresent hs \<and> position hs = (0.6, 0.4))"
proof -
  let ?L = "hand21 (pt 0.2 0.3) (pt 0.5 0.5) (pt 0.6 0.6) (pt 0.8 0.5)"
  have len: "21 \<le> length ?L" by (simp add: hand21_reads)
  from C9_pointer_outputs [OF len, of "[]" "[]" 0 STATE_init]
  show ?thesis by (simp add: hand21_reads pt_def)
qed

section \<open>The mode state machine\<close>

lemma random_index_less:
  assumes "0 \<le> u" "u < 1" "0 < n"
  shows "nat \<lfloor>u * real n\<rfloor> < n"
proof -
  have "u * real n < real n" using assms by simp
  then have "\<lfloor>u * real n\<rfloor> < int n" by linarith
  moreover have "0 \<le> \<lfloor>u * real n\<rfloor>" using assms by simp
  ultimately show ?thesis by linarith
qed

lemma processGestures_mode:
  assumes "21 \<le> length L"
  shows "mode (snd (processGestures (one_hand L) ps u st)) =
           (case processGestures_gesture L of
              PINCH \<Rightarrow> FOCUS | FIST \<Rightarrow> TREE | OPEN_PALM \<Rightarrow> SCATTER | UNKNOWN \<Rightarrow> mode st)"
  unfolding one_hand_def processGestures_full [OF assms] processGestures_gesture_def
  by (simp add: Let_def)

lemma processGestures_focusTarget:
  assumes "21 \<le> length L"
  shows "focusTarget (snd (processGestures (one_hand L) ps u st)) =
           (case processGestures_gesture L of
              PINCH \<Rightarrow>
                (if mode st \<noteq> FOCUS \<and> filter (\<lambda>p. ptype p = ''PHOTO'') ps \<noteq> [] then
                   Some (mesh_id (mesh (filter (\<lambda>p. ptype p = ''PHOTO'') ps !
                     nat \<lfloor>u * real (length (filter (\<lambda>p. ptype p = ''PHOTO'') ps))\<rfloor>)))
                 else focusTarget st)
            | FIST \<Rightarrow> None | OPEN_PALM \<Rightarrow> None | UNKNOWN \<Rightarrow> focusTarget st)"
  unfolding one_hand_def processGestures_full [OF assms] processGestures_gesture_def
  by (simp add: Let_def)

lemma processGestures_no_error:
  assumes "21 \<le> length L"
  shows "fst (processGestures (one_hand L) ps u st) = None"
  unfolding one_hand_def processGestures_full [OF assms] by simp

lemma picked_photo:
  assumes "0 \<le> u" "u < 1" "filter (\<lambda>p. ptype p = ''PHOTO'') ps \<noteq> []"
  shows "\<exists>p \<in> set ps. ptype p = ''PHOTO'' \<and>
           mesh_id (mesh (filter (\<lambda>p. ptype p = ''PHOTO'') ps !
             nat \<lfloor>u * real (length (filter (\<lambda>p. ptype p = ''PHOTO'') ps))\<rfloor>)) = mesh_id (mesh p)"
proof -
  let ?photos = "filter (\<lambda>p. ptype p = ''PHOTO'') ps"
  have "nat \<lfloor>u * real (length ?photos)\<rfloor> < length ?photos"
    using assms by (intro random_index_less) simp_all
  then have "?photos ! nat \<lfloor>u * real (length ?photos)\<rfloor> \<in> set ?photos"
    by (rule nth_mem)
  then show ?thesis by auto
qed

lemma pinch_then_pinch:
  assumes "21 \<le> length L" "processGestures_gesture L = PINCH"
    and "21 \<le> length L2" "processGestures_gesture L2 = PINCH"
  shows "focusTarget (snd (processGestures (one_hand L2) ps u2
            (snd (processGestures (one_hand L) ps u st))))
         = focusTarget (snd (processGestures (one_hand L) ps u st))"
    and "mode (snd (processGestures (one_hand L2) ps u2
            (snd (processGestures (one_hand L) ps u st)))) = FOCUS"
  using assms
  by (simp_all add: processGestures_focusTarget processGestures_mode)

lemma gesture_sequence_modes:
  assumes "21 \<le> length L1" "processGestures_gesture L1 = PINCH"
    and "21 \<le> length L2" "processGestures_gesture L2 = FIST"
    and "21 \<le> length L3" "processGestures_gesture L3 = OPEN_PALM"
    and "21 \<le> length L4" "processGestures_gesture L4 = UNKNOWN"
  shows "modes_after [(one_hand L1, u1), (one_hand L2, u2), (one_hand L3, u3), (one_hand L4, u4)]
           ps st = [FOCUS, TREE, SCATTER, SCATTER]"
  using assms by (simp add: processGestures_mode Let_def)

lemma example_gestures:
  "21 \<le> length pinch_hand" "processGestures_gesture pinch_hand = PINCH"
  "21 \<le> length fist_hand" "processGestures_gesture fist_hand = FIST"
  "21 \<le> length open_hand" "processGestures_gesture open_hand = OPEN_PALM"
  "21 \<le> length unknown_hand" "processGestures_gesture unknown_hand = UNKNOWN"
  by (simp_all add: pinch_hand_def fist_hand_def open_hand_def unknown_hand_def
      processGestures_gesture_def hand21_measures hand21_reads)

lemma TreeScene_effect_held:
  "TreeScene_effect md photos random (Some (c # cs)) =
     (if md = AppMode_ZOOM then Some (c # cs) else None)"
  by (simp add: TreeScene_effect_def)

lemma random_index_interval:
  assumes "0 < n" "0 \<le> u"
  shows "(nat \<lfloor>u * real n\<rfloor> = k) = (real k / real n \<le> u \<and> u < (real k + 1) / real n)"
proof -
  have nn: "0 \<le> \<lfloor>u * real n\<rfloor>" using assms by simp
  have "(nat \<lfloor>u * real n\<rfloor> = k) = (\<lfloor>u * real n\<rfloor> = int k)"
    using nn by linarith
  also have "\<dots> = (real k \<le> u * real n \<and> u * real n < real k + 1)"
    by (simp add: floor_eq_iff)
  also have "\<dots> = (real k / real n \<le> u \<and> u < (real k + 1) / real n)"
    using assms(1) by (simp add: pos_divide_le_eq pos_less_divide_eq)
  finally show ?thesis .
qed

lemma processPhotos_id:
  assumes "k < length urls"
  shows "ph_id (processPhotos urls rnd ! k) = ''photo-'' @ string_of_nat k"
  using assms by (simp add: processPhotos_def Let_def)

lemma processPhotos_length: "length (processPhotos urls rnd) = length urls"
  by (simp add: processPhotos_def)

lemma TreeScene_effect_select:
  assumes "photos \<noteq> []"
  shows "TreeScene_effect AppMode_ZOOM photos u None
           = Some (ph_id (photos ! nat \<lfloor>u * real (length photos)\<rfloor>))"
  using assms by (simp add: TreeScene_effect_def)

lemma TreeScene_effect_zoom_held:
  assumes "urls \<noteq> []" "0 \<le> u" "u < 1"
  shows "\<exists>c cs. TreeScene_effect AppMode_ZOOM (processPhotos urls rnd) u focused = Some (c # cs)"
proof -
  let ?photos = "processPhotos urls rnd"
  let ?k = "nat \<lfloor>u * real (length ?photos)\<rfloor>"
  have len: "0 < length ?photos" using assms(1) by (simp add: processPhotos_length)
  have k: "?k < length urls"
    using random_index_less [OF assms(2,3) len] by (simp add: processPhotos_length)
  have id: "ph_id (?photos ! ?k) = CHR ''p'' # (''hoto-'' @ string_of_nat ?k)"
    using processPhotos_id [OF k, of rnd] by simp
  show ?thesis
  proof (cases "focused = None \<or> focused = Some []")
    case True
    then have "TreeScene_effect AppMode_ZOOM ?photos u focused = Some (ph_id (?photos ! ?k))"
      using len by (auto simp: TreeScene_effect_def)
    with id show ?thesis by simp
  next
    case False
    then obtain c cs where "focused = Some (c # cs)"
      by (cases focused) (auto simp: neq_Nil_conv)
    then show ?thesis using len by (simp add: TreeScene_effect_def)
  qed
qed

lemma TreeScene_effect_twice:
  assumes "urls \<noteq> []" "0 \<le> u" "u < 1"
  shows "TreeScene_effect AppMode_ZOOM (processPhotos urls rnd) u'
           (TreeScene_effect AppMode_ZOOM (processPhotos urls rnd) u focused)
         = TreeScene_effect AppMode_ZOOM (processPhotos urls rnd) u focused"
    and "TreeScene_effect AppMode_ZOOM (processPhotos urls rnd) u focused \<noteq> None"
proof -
  from TreeScene_effect_zoom_held [OF assms, of rnd focused] obtain c cs where
    h: "TreeScene_effect AppMode_ZOOM (processPhotos urls rnd) u focused = Some (c # cs)"
    by blast
  show "TreeScene_effect AppMode_ZOOM (processPhotos urls rnd) u'
           (TreeScene_effect AppMode_ZOOM (processPhotos urls rnd) u focused)
         = TreeScene_effect AppMode_ZOOM (processPhotos urls rnd) u focused"
    unfolding h by (simp add: TreeScene_effect_held)
  show "TreeScene_effect AppMode_ZOOM (processPhotos urls rnd) u focused \<noteq> None"
    unfolding h by simp
qed

lemma TreeScene_effect_enter:
  assumes "urls \<noteq> []" "md \<noteq> AppMode_ZOOM"
  shows "TreeScene_effect AppMode_ZOOM (processPhotos urls rnd) u'
           (TreeScene_effect md (processPhotos urls rnd) u focused)
         = Some (ph_id (processPhotos urls rnd ! nat \<lfloor>u' * real (length urls)\<rfloor>))"
proof -
  have "TreeScene_effect md (processPhotos urls rnd) u focused = None"
    using assms(2) by (simp add: TreeScene_effect_def)
  moreover have "processPhotos urls rnd \<noteq> []"
    using assms(1) by (simp add: processPhotos_def)
  ultimately show ?thesis
    by (simp add: TreeScene_effect_select processPhotos_length)
qed

lemma digit_zero: "char_of (48::nat) = CHR ''0''"
  by code_simp

lemma first_photo_id: "ph_id (processPhotos [url] rnd ! 0) = ''photo-0''"
  by (simp add: processPhotos_def Let_def string_of_nat.simps digit_zero)

text \<open>
  Claim C1. For every hand sample with all 21 points that \<open>processGestures\<close> consumes: a
  PINCH sample sets the mode to FOCUS; a focus target is selected only when the prior mode
  was not FOCUS, and it is then the mesh of the PHOTO particle at index
  \<open>floor(random * photos.length)\<close> of the photos of the registry, so that photo \<open>k\<close> of
  \<open>n\<close> is picked by exactly the draws in \<open>[k/n, (k+1)/n)\<close>; a second consecutive PINCH
  keeps the target of the first; a FIST sample sets the mode to TREE and clears the focus
  target; an OPEN_PALM sample sets the mode to SCATTER and clears it; an UNKNOWN sample,
  and a sample with no hand, leave mode and focus target unchanged. From mode TREE the
  gestures PINCH, FIST, OPEN_PALM, UNKNOWN give the modes FOCUS, TREE, SCATTER, SCATTER.
  The effect of \<open>TreeScene\<close> selects the photo at the drawn index whenever the mode is
  ZOOM, there are photos and no id is held, keeps a held id while the mode is ZOOM, clears
  it in any other mode, and selects nothing when there are no photos. So with the photos
  of \<open>processPhotos\<close>, its run on entering ZOOM after a run in another mode selects a
  photo, and its run after a run in ZOOM keeps the photo of that run.
\<close>

theorem C1_mode_state_machine:
  assumes "21 \<le> length L"
  shows
    "(processGestures_gesture L = PINCH \<longrightarrow>
        mode (snd (processGestures (one_hand L) ps u st)) = FOCUS
        \<and> (mode st = FOCUS \<longrightarrow>
             focusTarget (snd (processGestures (one_hand L) ps u st)) = focusTarget st)
        \<and> (mode st \<noteq> FOCUS \<and> filter (\<lambda>p. ptype p = ''PHOTO'') ps \<noteq> [] \<and> 0 \<le> u \<and> u < 1 \<longrightarrow>
             (\<exists>p \<in> set ps. ptype p = ''PHOTO'' \<and>
                focusTarget (snd (processGestures (one_hand L) ps u st)) = Some (mesh_id (mesh p))))
        \<and> (mode st \<noteq> FOCUS \<and> filter (\<lambda>p. ptype p = ''PHOTO'') ps = [] \<longrightarrow>
             focusTarget (snd (processGestures (one_hand L) ps u st)) = focusTarget st)
        \<and> (21 \<le> length L' \<and> processGestures_gesture L' = PINCH \<longrightarrow>
             mode (snd (processGestures (one_hand L') ps u'
                (snd (processGestures (one_hand L) ps u st)))) = FOCUS
             \<and> focusTarget (snd (processGestures (one_hand L') ps u'
                  (snd (processGestures (one_hand L) ps u st))))
                = focusTarget (snd (processGestures (one_hand L) ps u st))))
     \<and> (processGestures_gesture L = FIST \<longrightarrow>
          mode (snd (processGestures (one_hand L) ps u st)) = TREE
          \<and> focusTarget (snd (processGestures (one_hand L) ps u st)) = None)
     \<and> (processGestures_gesture L = OPEN_PALM \<longrightarrow>
          mode (snd (processGestures (one_hand L) ps u st)) = SCATTER
          \<and> focusTarget (snd (processGestures (one_hand L) ps u st)) = None)
     \<and> (processGestures_gesture L = UNKNOWN \<longrightarrow>
          mode (snd (processGestures (one_hand L) ps u st)) = mode st
          \<and> focusTarget (snd (processGestures (one_hand L) ps u st)) = focusTarget st)
     \<and> fst (processGestures (one_hand L) ps u st) = None
     \<and> mode (snd (processGestures \<lparr>landmarks = None\<rparr> ps u st)) = mode st
     \<and> focusTarget (snd (processGestures \<lparr>landmarks = None\<rparr> ps u st)) = focusTarget st
     \<and> mode (snd (processGestures \<lparr>landmarks = Some []\<rparr> ps u st)) = mode st
     \<and> focusTarget (snd (processGestures \<lparr>landmarks = Some []\<rparr> ps u st)) = focusTarget st
     \<and> (mode st = TREE
          \<and> 21 \<le> length L1 \<and> processGestures_gesture L1 = PINCH
          \<and> 21 \<le> length L2 \<and> processGestures_gesture L2 = FIST
          \<and> 21 \<le> length L3 \<and> processGestures_gesture L3 = OPEN_PALM
          \<and> 21 \<le> length L4 \<and> processGestures_gesture L4 = UNKNOWN \<longrightarrow>
          modes_after [(one_hand L1, u1), (one_hand L2, u2), (one_hand L3, u3), (one_hand L4, u4)]
            ps st = [FOCUS, TREE, SCATTER, SCATTER])
     \<and> TreeScene_effect AppMode_ZOOM photos u (Some (c # cs)) = Some (c # cs)
     \<and> (md \<noteq> AppMode_ZOOM \<longrightarrow> TreeScene_effect md photos u focused = None)
     \<and> (processGestures_gesture L = PINCH \<and> mode st \<noteq> FOCUS
          \<and> filter (\<lambda>p. ptype p = ''PHOTO'') ps \<noteq> [] \<longrightarrow>
          focusTarget (snd (processGestures (one_hand L) ps u st))
            = Some (mesh_id (mesh (filter (\<lambda>p. ptype p = ''PHOTO'') ps !
                nat \<lfloor>u * real (length (filter (\<lambda>p. ptype p = ''PHOTO'') ps))\<rfloor>))))
     \<and> (filter (\<lambda>p. ptype p = ''PHOTO'') ps \<noteq> [] \<and> 0 \<le> u \<longrightarrow>
          (nat \<lfloor>u * real (length (filter (\<lambda>p. ptype p = ''PHOTO'') ps))\<rfloor> = k)
            = (real k / real (length (filter (\<lambda>p. ptype p = ''PHOTO'') ps)) \<le> u
               \<and> u < (real k + 1) / real (length (filter (\<lambda>p. ptype p = ''PHOTO'') ps))))
     \<and> (photos \<noteq> [] \<longrightarrow>
          TreeScene_effect AppMode_ZOOM photos u None
            = Some (ph_id (photos ! nat \<lfloor>u * real (length photos)\<rfloor>)))
     \<and> TreeScene_effect AppMode_ZOOM [] u focused = focused
     \<and> (urls \<noteq> [] \<and> md \<noteq> AppMode_ZOOM \<longrightarrow>
          TreeScene_effect AppMode_ZOOM (processPhotos urls rnd) u'
              (TreeScene_effect md (processPhotos urls rnd) u focused)
            = Some (ph_id (processPhotos urls rnd ! nat \<lfloor>u' * real (length urls)\<rfloor>)))
     \<and> (urls \<noteq> [] \<and> 0 \<le> u \<and> u < 1 \<longrightarrow>
          TreeScene_effect AppMode_ZOOM (processPhotos urls rnd) u focused \<noteq> None
          \<and> TreeScene_effect AppMode_ZOOM (processPhotos urls rnd) u'
                (TreeScene_effect AppMode_ZOOM (processPhotos urls rnd) u focused)
              = TreeScene_effect AppMode_ZOOM (processPhotos urls rnd) u focused)"
proof -
  note m = processGestures_mode [OF assms, of ps u st]
  note f = processGestures_focusTarget [OF assms, of ps u st]
  have pinch: "processGestures_gesture L = PINCH \<longrightarrow>
        mode (snd (processGestures (one_hand L) ps u st)) = FOCUS
        \<and> (mode st = FOCUS \<longrightarrow>
             focusTarget (snd (processGestures (one_hand L) ps u st)) = focusTarget st)
        \<and> (mode st \<noteq> FOCUS \<and> filter (\<lambda>p. ptype p = ''PHOTO'') ps \<noteq> [] \<and> 0 \<le> u \<and> u < 1 \<longrightarrow>
             (\<exists>p \<in> set ps. ptype p = ''PHOTO'' \<and>
                focusTarget (snd (processGestures (one_hand L) ps u st)) = Some (mesh_id (mesh p))))
        \<and> (mode st \<noteq> FOCUS \<and> filter (\<lambda>p. ptype p = ''PHOTO'') ps = [] \<longrightarrow>
             focusTarget (snd (processGestures (one_hand L) ps u st)) = focusTarget st)
        \<and> (21 \<le> length L' \<and> processGestures_gesture L' = PINCH \<longrightarrow>
             mode (snd (processGestures (one_hand L') ps u'
                (snd (processGestures (one_hand L) ps u st)))) = FOCUS
             \<and> focusTarget (snd (processGestures (one_hand L') ps u'
                  (snd (processGestures (one_hand L) ps u st))))
                = focusTarget (snd (processGestures (one_hand L) ps u st)))"
  proof (intro impI conjI)
    assume g: "processGestures_gesture L = PINCH"
    show "mode (snd (processGestures (one_hand L) ps u st)) = FOCUS"
      by (simp add: m g)
    show "focusTarget (snd (processGestures (one_hand L) ps u st)) = focusTarget st"
      if "mode st = FOCUS"
      using that by (simp add: f g)
    show "\<exists>p \<in> set ps. ptype p = ''PHOTO'' \<and>
            focusTarget (snd (processGestures (one_hand L) ps u st)) = Some (mesh_id (mesh p))"
      if h: "mode st \<noteq> FOCUS \<and> filter (\<lambda>p. ptype p = ''PHOTO'') ps \<noteq> [] \<and> 0 \<le> u \<and> u < 1"
    proof -
      from h picked_photo [of u ps] obtain p where
        "p \<in> set ps" "ptype p = ''PHOTO''"
        "mesh_id (mesh (filter (\<lambda>p. ptype p = ''PHOTO'') ps !
           nat \<lfloor>u * real (length (filter (\<lambda>p. ptype p = ''PHOTO'') ps))\<rfloor>)) = mesh_id (mesh p)"
        by blast
      moreover have "focusTarget (snd (processGestures (one_hand L) ps u st)) =
          Some (mesh_id (mesh (filter (\<lambda>p. ptype p = ''PHOTO'') ps !
           nat \<lfloor>u * real (length (filter (\<lambda>p. ptype p = ''PHOTO'') ps))\<rfloor>)))"
        using h by (simp add: f g)
      ultimately show ?thesis by auto
    qed
    show "focusTarget (snd (processGestures (one_hand L) ps u st)) = focusTarget st"
      if "mode st \<noteq> FOCUS \<and> filter (\<lambda>p. ptype p = ''PHOTO'') ps = []"
      using that by (simp add: f g)
    show "mode (snd (processGestures (one_hand L') ps u'
                (snd (processGestures (one_hand L) ps u st)))) = FOCUS"
      if "21 \<le> length L' \<and> processGestures_gesture L' = PINCH"
      using that pinch_then_pinch(2) [OF assms g, of L' ps u' u st] by simp
    show "focusTarget (snd (processGestures (one_hand L') ps u'
                  (snd (processGestures (one_hand L) ps u st))))
                = focusTarget (snd (processGestures (one_hand L) ps u st))"
      if "21 \<le> length L' \<and> processGestures_gesture L' = PINCH"
      using that pinch_then_pinch(1) [OF assms g, of L' ps u' u st] by simp
  qed
  have fist: "processGestures_gesture L = FIST \<longrightarrow>
          mode (snd (processGestures (one_hand L) ps u st)) = TREE
          \<and> focusTarget (snd (processGestures (one_hand L) ps u st)) = None"
    by (simp add: m f)
  have palm: "processGestures_gesture L = OPEN_PALM \<longrightarrow>
          mode (snd (processGestures (one_hand L) ps u st)) = SCATTER
          \<and> focusTarget (snd (processGestures (one_hand L) ps u st)) = None"
    by (simp add: m f)
  have unknown: "processGestures_gesture L = UNKNOWN \<longrightarrow>
          mode (snd (processGestures (one_hand L) ps u st)) = mode st
          \<and> focusTarget (snd (processGestures (one_hand L) ps u st)) = focusTarget st"
    by (simp add: m f)
  have absent:
    "mode (snd (processGestures \<lparr>landmarks = None\<rparr> ps u st)) = mode st"
    "focusTarget (snd (processGestures \<lparr>landmarks = None\<rparr> ps u st)) = focusTarget st"
    "mode (snd (processGestures \<lparr>landmarks = Some []\<rparr> ps u st)) = mode st"
    "focusTarget (snd (processGestures \<lparr>landmarks = Some []\<rparr> ps u st)) = focusTarget st"
    by (simp_all add: processGestures_absent)
  have seq: "mode st = TREE
          \<and> 21 \<le> length L1 \<and> processGestures_gesture L1 = PINCH
          \<and> 21 \<le> length L2 \<and> processGestures_gesture L2 = FIST
          \<and> 21 \<le> length L3 \<and> processGestures_gesture L3 = OPEN_PALM
          \<and> 21 \<le> length L4 \<and> processGestures_gesture L4 = UNKNOWN \<longrightarrow>
          modes_after [(one_hand L1, u1), (one_hand L2, u2), (one_hand L3, u3), (one_hand L4, u4)]
            ps st = [FOCUS, TREE, SCATTER, SCATTER]"
  proof
    assume h: "mode st = TREE
          \<and> 21 \<le> length L1 \<and> processGestures_gesture L1 = PINCH
          \<and> 21 \<le> length L2 \<and> processGestures_gesture L2 = FIST
          \<and> 21 \<le> length L3 \<and> processGestures_gesture L3 = OPEN_PALM
          \<and> 21 \<le> length L4 \<and> processGestures_gesture L4 = UNKNOWN"
    then show "modes_after [(one_hand L1, u1), (one_hand L2, u2), (one_hand L3, u3),
        (one_hand L4, u4)] ps st = [FOCUS, TREE, SCATTER, SCATTER]"
      by (intro gesture_sequence_modes) simp_all
  qed
  have scene1: "TreeScene_effect AppMode_ZOOM photos u (Some (c # cs)) = Some (c # cs)"
    by (simp add: TreeScene_effect_def)
  have scene2: "md \<noteq> AppMode_ZOOM \<longrightarrow> TreeScene_effect md photos u focused = None"
    by (simp add: TreeScene_effect_def)
  have pick: "processGestures_gesture L = PINCH \<and> mode st \<noteq> FOCUS
          \<and> filter (\<lambda>p. ptype p = ''PHOTO'') ps \<noteq> [] \<longrightarrow>
          focusTarget (snd (processGestures (one_hand L) ps u st))
            = Some (mesh_id (mesh (filter (\<lambda>p. ptype p = ''PHOTO'') ps !
                nat \<lfloor>u * real (length (filter (\<lambda>p. ptype p = ''PHOTO'') ps))\<rfloor>)))"
    by (simp add: f)
  have draws: "filter (\<lambda>p. ptype p = ''PHOTO'') ps \<noteq> [] \<and> 0 \<le> u \<longrightarrow>
          (nat \<lfloor>u * real (length (filter (\<lambda>p. ptype p = ''PHOTO'') ps))\<rfloor> = k)
            = (real k / real (length (filter (\<lambda>p. ptype p = ''PHOTO'') ps)) \<le> u
               \<and> u < (real k + 1) / real (length (filter (\<lambda>p. ptype p = ''PHOTO'') ps)))"
  proof
    assume h: "filter (\<lambda>p. ptype p = ''PHOTO'') ps \<noteq> [] \<and> 0 \<le> u"
    then have "0 < length (filter (\<lambda>p. ptype p = ''PHOTO'') ps)" and "0 \<le> u" by simp_all
    then show "(nat \<lfloor>u * real (length (filter (\<lambda>p. ptype p = ''PHOTO'') ps))\<rfloor> = k)
            = (real k / real (length (filter (\<lambda>p. ptype p = ''PHOTO'') ps)) \<le> u
               \<and> u < (real k + 1) / real (length (filter (\<lambda>p. ptype p = ''PHOTO'') ps)))"
      by (rule random_index_interval)
  qed
  have scene3: "photos \<noteq> [] \<longrightarrow>
          TreeScene_effect AppMode_ZOOM photos u None
            = Some (ph_id (photos ! nat \<lfloor>u * real (length photos)\<rfloor>))"
    using TreeScene_effect_select [of photos u] by blast
  have scene4: "TreeScene_effect AppMode_ZOOM [] u focused = focused"
    by (simp add: TreeScene_effect_def)
  have scene5: "urls \<noteq> [] \<and> md \<noteq> AppMode_ZOOM \<longrightarrow>
          TreeScene_effect AppMode_ZOOM (processPhotos urls rnd) u'
              (TreeScene_effect md (processPhotos urls rnd) u focused)
            = Some (ph_id (processPhotos urls rnd ! nat \<lfloor>u' * real (length urls)\<rfloor>))"
    using TreeScene_effect_enter [of urls md rnd u' u focused] by blast
  have scene6: "urls \<noteq> [] \<and> 0 \<le> u \<and> u < 1 \<longrightarrow>
          TreeScene_effect AppMode_ZOOM (processPhotos urls rnd) u focused \<noteq> None
          \<and> TreeScene_effect AppMode_ZOOM (processPhotos urls rnd) u'
                (TreeScene_effect AppMode_ZOOM (processPhotos urls rnd) u focused)
              = TreeScene_effect AppMode_ZOOM (processPhotos urls rnd) u focused"
  proof
    assume "urls \<noteq> [] \<and> 0 \<le> u \<and> u < 1"
    then have h: "urls \<noteq> []" "0 \<le> u" "u < 1" by simp_all
    show "TreeScene_effect AppMode_ZOOM (processPhotos urls rnd) u focused \<noteq> None
          \<and> TreeScene_effect AppMode_ZOOM (processPhotos urls rnd) u'
                (TreeScene_effect AppMode_ZOOM (processPhotos urls rnd) u focused)
              = TreeScene_effect AppMode_ZOOM (processPhotos urls rnd) u focused"
      by (intro conjI TreeScene_effect_twice(2) [OF h] TreeScene_effect_twice(1) [OF h])
  qed
  show ?thesis
    by (intro conjI pinch fist palm unknown processGestures_no_error [OF assms] absent seq
        scene1 scene2 pick draws scene3 scene4 scene5 scene6)
qed

theorem C1_mode_state_machine_witness:
  "21 \<le> length pinch_hand
   \<and> processGestures_gesture pinch_hand = PINCH
   \<and> mode STATE_init = TREE
   \<and> mode (snd (processGestures (one_hand pinch_hand) [example_particle 7 ''PHOTO'' False] 0
        STATE_init)) = FOCUS
   \<and> focusTarget (snd (processGestures (one_hand pinch_hand) [example_particle 7 ''PHOTO'' False] 0
        STATE_init)) = Some 7
   \<and> focusTarget (snd (processGestures (one_hand pinch_hand) [example_particle 7 ''PHOTO'' False]
        (1 / 2) (snd (processGestures (one_hand pinch_hand) [example_particle 7 ''PHOTO'' False] 0
        STATE_init))))
      = focusTarget (snd (processGestures (one_hand pinch_hand)
          [example_particle 7 ''PHOTO'' False] 0 STATE_init))
   \<and> modes_after [(one_hand pinch_hand, 0), (one_hand fist_hand, 0), (one_hand open_hand, 0),
        (one_hand unknown_hand, 0)] [example_particle 7 ''PHOTO'' False] STATE_init
      = [FOCUS, TREE, SCATTER, SCATTER]
   \<and> TreeScene_effect AppMode_ZOOM (processPhotos [''a.png''] (\<lambda>k. 1 / 2)) 0 None
      = Some ''photo-0''
   \<and> TreeScene_effect AppMode_ZOOM (processPhotos [''a.png''] (\<lambda>k. 1 / 2)) (1 / 2)
        (TreeScene_effect AppMode_ZOOM (processPhotos [''a.png''] (\<lambda>k. 1 / 2)) 0 None)
      = TreeScene_effect AppMode_ZOOM (processPhotos [''a.png''] (\<lambda>k. 1 / 2)) 0 None"
proof -
  have s: "mode STATE_init = TREE" "mode STATE_init \<noteq> FOCUS" by (simp_all add: STATE_init_def)
  have ph: "filter (\<lambda>p. ptype p = ''PHOTO'') [example_particle 7 ''PHOTO'' False]
      = [example_particle 7 ''PHOTO'' False]"
    unfolding example_particle_def by simp
  have ne: "filter (\<lambda>p. ptype p = ''PHOTO'') [example_particle 7 ''PHOTO'' False] \<noteq> []"
    unfolding ph by simp
  have pn: "processPhotos [''a.png''] (\<lambda>k. 1 / 2) \<noteq> []" "[''a.png''] \<noteq> []"
    "(0::real) \<le> 0" "(0::real) < 1"
    by (simp_all add: processPhotos_def)
  note t = C1_mode_state_machine [OF example_gestures(1),
      where ps = "[example_particle 7 ''PHOTO'' False]" and u = 0 and st = STATE_init
        and L' = pinch_hand and u' = "1 / 2"
        and ?L1.0 = pinch_hand and ?L2.0 = fist_hand and ?L3.0 = open_hand and ?L4.0 = unknown_hand
        and ?u1.0 = 0 and ?u2.0 = 0 and ?u3.0 = 0 and ?u4.0 = 0
        and photos = "processPhotos [''a.png''] (\<lambda>k. 1 / 2)" and urls = "[''a.png'']"
        and rnd = "\<lambda>k. 1 / 2" and focused = None and md = AppMode_ZOOM and k = 0]
  note pinch = t [THEN conjunct1]
  note seq = t [THEN conjunct2, THEN conjunct2, THEN conjunct2, THEN conjunct2, THEN conjunct2, THEN conjunct2, THEN conjunct2, THEN conjunct2, THEN conjunct2, THEN conjunct1]
  note pick = t [THEN conjunct2, THEN conjunct2, THEN conjunct2, THEN conjunct2, THEN conjunct2, THEN conjunct2, THEN conjunct2, THEN conjunct2, THEN conjunct2, THEN conjunct2, THEN conjunct2, THEN conjunct2, THEN conjunct1]
  note select = t [THEN conjunct2, THEN conjunct2, THEN conjunct2, THEN conjunct2, THEN conjunct2, THEN conjunct2, THEN conjunct2, THEN conjunct2, THEN conjunct2, THEN conjunct2, THEN conjunct2, THEN conjunct2, THEN conjunct2, THEN conjunct2, THEN conjunct1]
  note twice = t [THEN conjunct2, THEN conjunct2, THEN conjunct2, THEN conjunct2, THEN conjunct2, THEN conjunct2, THEN conjunct2, THEN conjunct2, THEN conjunct2, THEN conjunct2, THEN conjunct2, THEN conjunct2, THEN conjunct2, THEN conjunct2, THEN conjunct2, THEN conjunct2, THEN conjunct2]
  from pinch have a: "mode (snd (processGestures (one_hand pinch_hand)
      [example_particle 7 ''PHOTO'' False] 0 STATE_init)) = FOCUS"
    using example_gestures(2) by blast
  from pinch have b: "focusTarget (snd (processGestures (one_hand pinch_hand)
        [example_particle 7 ''PHOTO'' False]
        (1 / 2) (snd (processGestures (one_hand pinch_hand) [example_particle 7 ''PHOTO'' False] 0
        STATE_init))))
      = focusTarget (snd (processGestures (one_hand pinch_hand)
          [example_particle 7 ''PHOTO'' False] 0 STATE_init))"
    using example_gestures(1,2) by blast
  from seq have c: "modes_after [(one_hand pinch_hand, 0), (one_hand fist_hand, 0),
        (one_hand open_hand, 0), (one_hand unknown_hand, 0)]
        [example_particle 7 ''PHOTO'' False] STATE_init
      = [FOCUS, TREE, SCATTER, SCATTER]"
    using example_gestures s(1) by blast
  from pick have d0: "focusTarget (snd (processGestures (one_hand pinch_hand)
        [example_particle 7 ''PHOTO'' False] 0 STATE_init))
      = Some (mesh_id (mesh (filter (\<lambda>p. ptype p = ''PHOTO'') [example_particle 7 ''PHOTO'' False] !
          nat \<lfloor>0 * real (length (filter (\<lambda>p. ptype p = ''PHOTO'')
            [example_particle 7 ''PHOTO'' False]))\<rfloor>)))"
    using example_gestures(2) s(2) ne by blast
  have d: "focusTarget (snd (processGestures (one_hand pinch_hand)
        [example_particle 7 ''PHOTO'' False] 0 STATE_init)) = Some 7"
    unfolding d0 ph by (simp add: example_particle_def)
  from select have e0: "TreeScene_effect AppMode_ZOOM (processPhotos [''a.png''] (\<lambda>k. 1 / 2)) 0 None
      = Some (ph_id (processPhotos [''a.png''] (\<lambda>k. 1 / 2) !
          nat \<lfloor>0 * real (length (processPhotos [''a.png''] (\<lambda>k. 1 / 2)))\<rfloor>))"
    using pn(1) by blast
  have e: "TreeScene_effect AppMode_ZOOM (processPhotos [''a.png''] (\<lambda>k. 1 / 2)) 0 None
      = Some ''photo-0''"
    unfolding e0 by (simp add: first_photo_id)
  from twice have g: "TreeScene_effect AppMode_ZOOM (processPhotos [''a.png''] (\<lambda>k. 1 / 2)) (1 / 2)
        (TreeScene_effect AppMode_ZOOM (processPhotos [''a.png''] (\<lambda>k. 1 / 2)) 0 None)
      = TreeScene_effect AppMode_ZOOM (processPhotos [''a.png''] (\<lambda>k. 1 / 2)) 0 None"
    using pn(2,3,4) by blast
  show ?thesis
    by (intro conjI example_gestures(1,2) s(1) a d b c e g)
qed

section \<open>The animator\<close>

lemma update_position:
  "mesh_position (mesh (Particle_update lookAt dt md ft camera clock mainGroup p)) =
     v_lerp (mesh_position (mesh p)) (update_target md ft mainGroup p)
       (update_lerpSpeed md ft p * dt)"
  by (simp add: Particle_update_def update_target_def update_lerpSpeed_def Let_def)

lemma update_rotation:
  "mesh_rotation (mesh (Particle_update lookAt dt md ft camera clock mainGroup p)) =
     (if md = SCATTER then
        \<lparr>vx = vx (mesh_rotation (mesh p)) + vx (spinSpeed p) * dt,
         vy = vy (mesh_rotation (mesh p)) + vy (spinSpeed p) * dt,
         vz = vz (mesh_rotation (mesh p)) + vz (spinSpeed p) * dt\<rparr>
      else if md = TREE then
        \<lparr>vx = (1 - dt) * vx (mesh_rotation (mesh p)),
         vy = vy (mesh_rotation (mesh p)) + 0.5 * dt,
         vz = (1 - dt) * vz (mesh_rotation (mesh p))\<rparr>
      else if Some (mesh_id (mesh p)) = ft then
        lookAt ((mesh p)\<lparr>mesh_position :=
                  v_lerp (mesh_position (mesh p))
                    (worldToLocal mainGroup (Vector3_new 0 2 35)) (5 * dt)\<rparr>)
          (cam_position camera)
      else mesh_rotation (mesh p))"
  by (cases md) (simp_all add: Particle_update_def Let_def lerp_def)

lemma update_scale:
  "mesh_scale (mesh (Particle_update lookAt dt md ft camera clock mainGroup p)) =
     (let s = (if isDust p then
                 (if md = TREE then 0
                  else baseScale p * (0.8 + 0.4 * sin (elapsedTime clock * 4 + real (mesh_id (mesh p)))))
               else if md = SCATTER \<and> ptype p = ''PHOTO'' then baseScale p * 2.5
               else if md = FOCUS then
                 (if Some (mesh_id (mesh p)) = ft then 4.5 else baseScale p * 0.8)
               else baseScale p)
      in v_lerp (mesh_scale (mesh p)) (Vector3_new s s s) (4 * dt))"
  by (cases md) (simp_all add: Particle_update_def Let_def)

lemma update_static:
  "mesh_id (mesh (Particle_update lookAt dt md ft camera clock mainGroup p)) = mesh_id (mesh p)"
  "posTree (Particle_update lookAt dt md ft camera clock mainGroup p) = posTree p"
  "posScatter (Particle_update lookAt dt md ft camera clock mainGroup p) = posScatter p"
  "baseScale (Particle_update lookAt dt md ft camera clock mainGroup p) = baseScale p"
  "spinSpeed (Particle_update lookAt dt md ft camera clock mainGroup p) = spinSpeed p"
  "isDust (Particle_update lookAt dt md ft camera clock mainGroup p) = isDust p"
  "ptype (Particle_update lookAt dt md ft camera clock mainGroup p) = ptype p"
  by (simp_all add: Particle_update_def Let_def)

lemma update_target_static:
  "update_target md ft mainGroup (Particle_update lookAt dt md' ft' camera clock mainGroup' p)
     = update_target md ft mainGroup p"
  "update_lerpSpeed md ft (Particle_update lookAt dt md' ft' camera clock mainGroup' p)
     = update_lerpSpeed md ft p"
  by (simp_all add: update_target_def update_lerpSpeed_def update_static)

lemma distanceTo_v_lerp:
  "distanceTo (v_lerp p t a) t = \<bar>1 - a\<bar> * distanceTo p t"
proof -
  have x: "vx p + (vx t - vx p) * a - vx t = (1 - a) * (vx p - vx t)" by algebra
  have y: "vy p + (vy t - vy p) * a - vy t = (1 - a) * (vy p - vy t)" by algebra
  have z: "vz p + (vz t - vz p) * a - vz t = (1 - a) * (vz p - vz t)" by algebra
  have "distanceTo (v_lerp p t a) t =
      sqrt ((1 - a)\<^sup>2 * ((vx p - vx t)\<^sup>2 + (vy p - vy t)\<^sup>2 + (vz p - vz t)\<^sup>2))"
    by (simp add: distanceTo_def v_lerp_def x y z power_mult_distrib distrib_left)
  also have "\<dots> = \<bar>1 - a\<bar> * distanceTo p t"
    by (simp add: real_sqrt_mult distanceTo_def)
  finally show ?thesis .
qed

lemma distanceTo_along_y:
  "distanceTo \<lparr>vx = a, vy = b, vz = c\<rparr> \<lparr>vx = a, vy = d, vz = c\<rparr> = \<bar>b - d\<bar>"
  by (simp add: distanceTo_def)

lemma distanceTo_nonneg: "0 \<le> distanceTo p t"
  by (simp add: distanceTo_def)

lemma ticks_position:
  "distanceTo (mesh_position (mesh
       ((Particle_update lookAt dt md ft camera clock mainGroup ^^ n) p)))
     (update_target md ft mainGroup p)
   = \<bar>1 - update_lerpSpeed md ft p * dt\<bar> ^ n
       * distanceTo (mesh_position (mesh p)) (update_target md ft mainGroup p)"
proof (induction n)
  case 0
  show ?case by simp
next
  case (Suc n)
  let ?q = "(Particle_update lookAt dt md ft camera clock mainGroup ^^ n) p"
  have t: "update_target md ft mainGroup ?q = update_target md ft mainGroup p"
   and k: "update_lerpSpeed md ft ?q = update_lerpSpeed md ft p"
    by (induction n) (simp_all add: update_target_static)
  have "distanceTo (mesh_position (mesh
       ((Particle_update lookAt dt md ft camera clock mainGroup ^^ Suc n) p)))
     (update_target md ft mainGroup p)
     = \<bar>1 - update_lerpSpeed md ft p * dt\<bar>
        * distanceTo (mesh_position (mesh ?q)) (update_target md ft mainGroup p)"
    using distanceTo_v_lerp [of "mesh_position (mesh ?q)" "update_target md ft mainGroup p"
        "update_lerpSpeed md ft p * dt"]
    by (simp add: update_position t k)
  with Suc.IH show ?case by simp
qed

lemma geometric_small:
  fixes c d e :: real
  assumes "0 \<le> c" "c < 1" "0 \<le> d" "0 < e"
  shows "\<exists>N. \<forall>n\<ge>N. c ^ n * d < e"
proof (cases "d = 0")
  case True
  with assms show ?thesis by simp
next
  case False
  with assms have d: "0 < d" by simp
  then have "0 < e / d" using assms by simp
  from real_arch_pow_inv [OF this \<open>c < 1\<close>] obtain N where N: "c ^ N < e / d" by blast
  have "c ^ n * d < e" if "N \<le> n" for n
  proof -
    have "c ^ n \<le> c ^ N"
      using that assms by (intro power_decreasing) simp_all
    with N have "c ^ n < e / d" by simp
    with d show ?thesis by (simp add: pos_less_divide_eq)
  qed
  then show ?thesis by blast
qed

text \<open>
  Claim C5, as stated, fails for a particle that is not the focused one while the mode is
  FOCUS: its rotation does not advance by \<open>spinSpeed * dt\<close>, it stays as it is.
\<close>

theorem C5_focus_rotation_counterexample:
  "Some (mesh_id (mesh (example_particle 1 ''BOX'' False))) \<noteq> Some 2
   \<and> mesh_rotation (mesh (Particle_update example_lookAt (1 / 10) FOCUS (Some 2)
        example_camera example_clock example_group (example_particle 1 ''BOX'' False)))
      = \<lparr>vx = 0, vy = 0, vz = 0\<rparr>
   \<and> \<lparr>vx = vx (mesh_rotation (mesh (example_particle 1 ''BOX'' False)))
            + vx (spinSpeed (example_particle 1 ''BOX'' False)) * (1 / 10),
       vy = vy (mesh_rotation (mesh (example_particle 1 ''BOX'' False)))
            + vy (spinSpeed (example_particle 1 ''BOX'' False)) * (1 / 10),
       vz = vz (mesh_rotation (mesh (example_particle 1 ''BOX'' False)))
            + vz (spinSpeed (example_particle 1 ''BOX'' False)) * (1 / 10)\<rparr>
      = \<lparr>vx = 1 / 10, vy = 1 / 10, vz = 1 / 10\<rparr>"
  by (simp add: update_rotation example_particle_def origin_def)

text \<open>
  Claim C5, amended. On every animator tick with elapsed time \<open>dt\<close>: a particle's rotation
  advances by \<open>spinSpeed * dt\<close> on each axis while the mode is SCATTER; while the mode is
  FOCUS a particle that is not the focused one keeps its rotation unchanged; while the mode
  is TREE its X and Z rotation are interpolated toward zero, each multiplied by \<open>1 - dt\<close>
  (so not growing in size for \<open>0 \<le> dt \<le> 2\<close>), and its Y rotation advances by \<open>0.5 * dt\<close>;
  the focused particle in FOCUS gets the rotation that \<open>lookAt(camera.position)\<close> assigns
  to the mesh at its new position.
\<close>

theorem C5_rotation_update:
  "mesh_rotation (mesh (Particle_update lookAt dt SCATTER ft camera clock mainGroup p))
     = \<lparr>vx = vx (mesh_rotation (mesh p)) + vx (spinSpeed p) * dt,
        vy = vy (mesh_rotation (mesh p)) + vy (spinSpeed p) * dt,
        vz = vz (mesh_rotation (mesh p)) + vz (spinSpeed p) * dt\<rparr>
   \<and> (Some (mesh_id (mesh p)) \<noteq> ft \<longrightarrow>
        mesh_rotation (mesh (Particle_update lookAt dt FOCUS ft camera clock mainGroup p))
          = mesh_rotation (mesh p))
   \<and> mesh_rotation (mesh (Particle_update lookAt dt TREE ft camera clock mainGroup p))
       = \<lparr>vx = (1 - dt) * vx (mesh_rotation (mesh p)),
          vy = vy (mesh_rotation (mesh p)) + 0.5 * dt,
          vz = (1 - dt) * vz (mesh_rotation (mesh p))\<rparr>
   \<and> (0 \<le> dt \<and> dt \<le> 2 \<longrightarrow>
        \<bar>vx (mesh_rotation (mesh (Particle_update lookAt dt TREE ft camera clock mainGroup p)))\<bar>
          \<le> \<bar>vx (mesh_rotation (mesh p))\<bar>
        \<and> \<bar>vz (mesh_rotation (mesh (Particle_update lookAt dt TREE ft camera clock mainGroup p)))\<bar>
          \<le> \<bar>vz (mesh_rotation (mesh p))\<bar>)
   \<and> (Some (mesh_id (mesh p)) = ft \<longrightarrow>
        mesh_rotation (mesh (Particle_update lookAt dt FOCUS ft camera clock mainGroup p))
          = lookAt ((mesh p)\<lparr>mesh_position :=
                      v_lerp (mesh_position (mesh p))
                        (worldToLocal mainGroup (Vector3_new 0 2 35)) (5 * dt)\<rparr>)
              (cam_position camera))"
proof -
  have shrink: "\<bar>(1 - dt) * a\<bar> \<le> \<bar>a\<bar>" if "0 \<le> dt \<and> dt \<le> 2" for a :: real
  proof -
    have "\<bar>1 - dt\<bar> \<le> 1" using that by (simp add: abs_le_iff)
    then have "\<bar>1 - dt\<bar> * \<bar>a\<bar> \<le> 1 * \<bar>a\<bar>"
      by (intro mult_right_mono) simp_all
    then show ?thesis by (simp add: abs_mult)
  qed
  show ?thesis
    by (simp add: update_rotation shrink)
qed

theorem C5_rotation_update_witness:
  "Some (mesh_id (mesh (example_particle 1 ''BOX'' False))) \<noteq> Some 2
   \<and> (0::real) \<le> 1 / 10 \<and> (1::real) / 10 \<le> 2
   \<and> mesh_rotation (mesh (Particle_update example_lookAt (1 / 10) FOCUS (Some 2)
        example_camera example_clock example_group (example_particle 1 ''BOX'' False)))
      = mesh_rotation (mesh (example_particle 1 ''BOX'' False))
   \<and> mesh_rotation (mesh (Particle_update example_lookAt (1 / 10) FOCUS (Some 1)
        example_camera example_clock example_group (example_particle 1 ''BOX'' False)))
      = \<lparr>vx = 0, vy = 0, vz = 0\<rparr>"
proof -
  have a: "Some (mesh_id (mesh (example_particle 1 ''BOX'' False))) \<noteq> Some 2"
    by (simp add: example_particle_def)
  have b: "Some (mesh_id (mesh (example_particle 1 ''BOX'' False))) = Some 1"
    by (simp add: example_particle_def)
  from C5_rotation_update [of example_lookAt "1 / 10" "Some 2" example_camera example_clock
      example_group "example_particle 1 ''BOX'' False"] a
  have c: "mesh_rotation (mesh (Particle_update example_lookAt (1 / 10) FOCUS (Some 2)
        example_camera example_clock example_group (example_particle 1 ''BOX'' False)))
      = mesh_rotation (mesh (example_particle 1 ''BOX'' False))"
    by blast
  from C5_rotation_update [of example_lookAt "1 / 10" "Some 1" example_camera example_clock
      example_group "example_particle 1 ''BOX'' False"] b
  have d: "mesh_rotation (mesh (Particle_update example_lookAt (1 / 10) FOCUS (Some 1)
        example_camera example_clock example_group (example_particle 1 ''BOX'' False)))
      = \<lparr>vx = 0, vy = 0, vz = 0\<rparr>"
    by (simp add: example_lookAt_def)
  show ?thesis
    using a c d by simp
qed

section \<open>FOCUS without a photo\<close>

lemma example_particle_fields:
  "mesh_id (mesh (example_particle i kind dust)) = i"
  "mesh_position (mesh (example_particle i kind dust)) = \<lparr>vx = 0, vy = 0, vz = 0\<rparr>"
  "mesh_rotation (mesh (example_particle i kind dust)) = \<lparr>vx = 0, vy = 0, vz = 0\<rparr>"
  "mesh_scale (mesh (example_particle i kind dust)) = \<lparr>vx = 1, vy = 1, vz = 1\<rparr>"
  "ptype (example_particle i kind dust) = kind"
  "isDust (example_particle i kind dust) = dust"
  "posTree (example_particle i kind dust) = \<lparr>vx = 0, vy = 1, vz = 0\<rparr>"
  "posScatter (example_particle i kind dust) = \<lparr>vx = 3, vy = 0, vz = 4\<rparr>"
  "baseScale (example_particle i kind dust) = 1"
  "spinSpeed (example_particle i kind dust) = \<lparr>vx = 1, vy = 1, vz = 1\<rparr>"
  by (simp_all add: example_particle_def origin_def)

text \<open>
  With no PHOTO particle in the registry no call of \<open>processGestures\<close> sets a focus
  target: it stays unset from the initial state on.
\<close>

lemma focusTarget_stays_unset:
  assumes "focusTarget st = None" and "filter (\<lambda>p. ptype p = ''PHOTO'') ps = []"
  shows "focusTarget (snd (processGestures r ps u st)) = None"
proof (cases "landmarks r")
  case None
  then have "r = \<lparr>landmarks = None\<rparr>" by (cases r) simp
  with assms(1) show ?thesis by (simp add: processGestures_absent)
next
  case (Some hands)
  show ?thesis
  proof (cases hands)
    case Nil
    with Some have "r = \<lparr>landmarks = Some []\<rparr>" by (cases r) simp
    with assms(1) show ?thesis by (simp add: processGestures_absent)
  next
    case (Cons L others)
    with Some have r: "r = \<lparr>landmarks = Some (L # others)\<rparr>" by (cases r) simp
    show ?thesis
    proof (cases "length L < 21")
      case True
      with assms(1) show ?thesis by (simp add: r processGestures_short(3))
    next
      case False
      then have "21 \<le> length L" by simp
      from processGestures_full [OF this, of others ps u st] assms show ?thesis
        by (simp add: r Let_def)
    qed
  qed
qed

text \<open>
  Claim C8, as stated, fails: after a PINCH with no PHOTO particle in the registry the
  animator does not treat a particle as in SCATTER mode. For a box of scale 1 and
  \<open>dt = 0.1\<close>, the tick in the state reached leaves the rotation at 0 and shrinks the scale
  to 0.92, where the SCATTER tick turns it by 0.1 on each axis and keeps the scale 1.
\<close>

theorem C8_focus_without_photo_counterexample:
  "mode (snd (processGestures (one_hand pinch_hand) [example_particle 3 ''BOX'' False] 0
      STATE_init)) = FOCUS
   \<and> focusTarget (snd (processGestures (one_hand pinch_hand) [example_particle 3 ''BOX'' False] 0
        STATE_init)) = None
   \<and> map (\<lambda>p. (mesh_rotation (mesh p), mesh_scale (mesh p)))
        (animate_particles example_lookAt (1 / 10)
          (snd (processGestures (one_hand pinch_hand) [example_particle 3 ''BOX'' False] 0
             STATE_init))
          example_camera example_clock example_group [example_particle 3 ''BOX'' False])
      = [(\<lparr>vx = 0, vy = 0, vz = 0\<rparr>, \<lparr>vx = 23 / 25, vy = 23 / 25, vz = 23 / 25\<rparr>)]
   \<and> map (\<lambda>p. (mesh_rotation (mesh p), mesh_scale (mesh p)))
        (animate_particles example_lookAt (1 / 10)
          ((snd (processGestures (one_hand pinch_hand) [example_particle 3 ''BOX'' False] 0
             STATE_init))\<lparr>mode := SCATTER\<rparr>)
          example_camera example_clock example_group [example_particle 3 ''BOX'' False])
      = [(\<lparr>vx = 1 / 10, vy = 1 / 10, vz = 1 / 10\<rparr>, \<lparr>vx = 1, vy = 1, vz = 1\<rparr>)]"
proof -
  have m: "mode (snd (processGestures (one_hand pinch_hand) [example_particle 3 ''BOX'' False] 0
      STATE_init)) = FOCUS"
    by (simp add: processGestures_mode example_gestures)
  have f: "focusTarget (snd (processGestures (one_hand pinch_hand)
      [example_particle 3 ''BOX'' False] 0 STATE_init)) = None"
    by (simp add: processGestures_focusTarget example_gestures example_particle_fields
        STATE_init_def)
  show ?thesis
    unfolding animate_particles_def
    by (simp add: m f update_rotation update_scale Let_def example_particle_fields
        v_lerp_def Vector3_new_def)
qed

text \<open>
  Claim C8, amended. If a PINCH sample arrives while the registry contains no PHOTO
  particle and no focus target is held, no failure is raised, the mode becomes FOCUS and
  the focus target stays unset. The animator then gives every particle the position target
  and easing speed of SCATTER mode (its scatter position, speed 2), and no particle zooms:
  none is turned by \<open>lookAt\<close> or scaled toward 4.5. Unlike in SCATTER mode, the rotation of
  every particle is left unchanged, and every particle that is not dust shrinks toward 0.8
  of its base scale; dust pulses as in SCATTER mode.
\<close>

theorem C8_focus_without_photo:
  assumes "21 \<le> length L" and "processGestures_gesture L = PINCH"
    and "filter (\<lambda>p. ptype p = ''PHOTO'') ps = []" and "focusTarget st = None"
  shows "fst (processGestures (one_hand L) ps u st) = None
     \<and> mode (snd (processGestures (one_hand L) ps u st)) = FOCUS
     \<and> focusTarget (snd (processGestures (one_hand L) ps u st)) = None
     \<and> map (\<lambda>p. mesh_position (mesh p))
          (animate_particles lookAt dt (snd (processGestures (one_hand L) ps u st))
             camera clock mainGroup ps)
        = map (\<lambda>p. mesh_position (mesh p))
          (animate_particles lookAt dt
             ((snd (processGestures (one_hand L) ps u st))\<lparr>mode := SCATTER\<rparr>)
             camera clock mainGroup ps)
     \<and> mesh_position (mesh (Particle_update lookAt dt FOCUS None camera clock mainGroup p))
        = v_lerp (mesh_position (mesh p)) (posScatter p) (2 * dt)
     \<and> mesh_rotation (mesh (Particle_update lookAt dt FOCUS None camera clock mainGroup p))
        = mesh_rotation (mesh p)
     \<and> (isDust p \<longrightarrow>
          mesh_scale (mesh (Particle_update lookAt dt FOCUS None camera clock mainGroup p))
          = mesh_scale (mesh (Particle_update lookAt dt SCATTER None camera clock mainGroup p)))
     \<and> (\<not> isDust p \<longrightarrow>
          mesh_scale (mesh (Particle_update lookAt dt FOCUS None camera clock mainGroup p))
          = v_lerp (mesh_scale (mesh p))
              (Vector3_new (baseScale p * 0.8) (baseScale p * 0.8) (baseScale p * 0.8)) (4 * dt))"
proof -
  have e: "fst (processGestures (one_hand L) ps u st) = None"
    by (rule processGestures_no_error [OF assms(1)])
  have m: "mode (snd (processGestures (one_hand L) ps u st)) = FOCUS"
    by (simp add: processGestures_mode [OF assms(1)] assms(2))
  have f: "focusTarget (snd (processGestures (one_hand L) ps u st)) = None"
    by (simp add: processGestures_focusTarget [OF assms(1)] assms(2,3,4))
  have a: "map (\<lambda>p. mesh_position (mesh p))
          (animate_particles lookAt dt (snd (processGestures (one_hand L) ps u st))
             camera clock mainGroup ps)
        = map (\<lambda>p. mesh_position (mesh p))
          (animate_particles lookAt dt
             ((snd (processGestures (one_hand L) ps u st))\<lparr>mode := SCATTER\<rparr>)
             camera clock mainGroup ps)"
    by (simp add: animate_particles_def m f update_position update_target_def
        update_lerpSpeed_def)
  have p: "mesh_position (mesh (Particle_update lookAt dt FOCUS None camera clock mainGroup p))
        = v_lerp (mesh_position (mesh p)) (posScatter p) (2 * dt)"
    by (simp add: update_position update_target_def update_lerpSpeed_def)
  have r: "mesh_rotation (mesh (Particle_update lookAt dt FOCUS None camera clock mainGroup p))
        = mesh_rotation (mesh p)"
    by (simp add: update_rotation)
  have d: "isDust p \<longrightarrow>
          mesh_scale (mesh (Particle_update lookAt dt FOCUS None camera clock mainGroup p))
          = mesh_scale (mesh (Particle_update lookAt dt SCATTER None camera clock mainGroup p))"
    by (simp add: update_scale)
  have n: "\<not> isDust p \<longrightarrow>
          mesh_scale (mesh (Particle_update lookAt dt FOCUS None camera clock mainGroup p))
          = v_lerp (mesh_scale (mesh p))
              (Vector3_new (baseScale p * 0.8) (baseScale p * 0.8) (baseScale p * 0.8)) (4 * dt)"
    by (simp add: update_scale Let_def)
  show ?thesis
    by (intro conjI e m f a p r d n)
qed

theorem C8_focus_without_photo_witness:
  "21 \<le> length pinch_hand \<and> processGestures_gesture pinch_hand = PINCH
   \<and> filter (\<lambda>p. ptype p = ''PHOTO'') [example_particle 3 ''BOX'' False] = []
   \<and> focusTarget STATE_init = None
   \<and> \<not> isDust (example_particle 3 ''BOX'' False)
   \<and> mode (snd (processGestures (one_hand pinch_hand) [example_particle 3 ''BOX'' False] 0
        STATE_init)) = FOCUS
   \<and> focusTarget (snd (processGestures (one_hand pinch_hand) [example_particle 3 ''BOX'' False] 0
        STATE_init)) = None
   \<and> mesh_scale (mesh (Particle_update example_lookAt (1 / 10) FOCUS None example_camera
        example_clock example_group (example_particle 3 ''BOX'' False)))
      = \<lparr>vx = 23 / 25, vy = 23 / 25, vz = 23 / 25\<rparr>"
proof -
  have h: "filter (\<lambda>p. ptype p = ''PHOTO'') [example_particle 3 ''BOX'' False] = []"
    "focusTarget STATE_init = None" "\<not> isDust (example_particle 3 ''BOX'' False)"
    by (simp_all add: example_particle_fields STATE_init_def)
  note t = C8_focus_without_photo [OF example_gestures(1,2) h(1,2),
      of 0 example_lookAt "1 / 10" example_camera example_clock example_group
         "example_particle 3 ''BOX'' False"]
  have s: "v_lerp (mesh_scale (mesh (example_particle 3 ''BOX'' False)))
              (Vector3_new (baseScale (example_particle 3 ''BOX'' False) * 0.8)
                 (baseScale (example_particle 3 ''BOX'' False) * 0.8)
                 (baseScale (example_particle 3 ''BOX'' False) * 0.8)) (4 * (1 / 10))
           = \<lparr>vx = 23 / 25, vy = 23 / 25, vz = 23 / 25\<rparr>"
    by (simp add: example_particle_fields v_lerp_def Vector3_new_def)
  from t h(3) s show ?thesis
    using example_gestures(1,2) h(1,2) by simp
qed

section \<open>Convergence of the position\<close>

lemma shift_y_distance:
  "distanceTo (q\<lparr>vy := vy q + e\<rparr>) t \<le> distanceTo q t + \<bar>e\<bar>"
proof -
  define a b c where "a = vx q - vx t" and "b = vy q - vy t" and "c = vz q - vz t"
  define S where "S = a\<^sup>2 + b\<^sup>2 + c\<^sup>2"
  have S0: "0 \<le> S" by (simp add: S_def)
  have "b\<^sup>2 \<le> S" by (simp add: S_def)
  then have "sqrt (b\<^sup>2) \<le> sqrt S" by (rule real_sqrt_le_mono)
  then have b: "\<bar>b\<bar> \<le> sqrt S" by simp
  have "e * b \<le> \<bar>e\<bar> * \<bar>b\<bar>" by (metis abs_ge_self abs_mult)
  also have "\<dots> \<le> \<bar>e\<bar> * sqrt S" using b by (intro mult_left_mono) simp_all
  finally have eb: "e * b \<le> \<bar>e\<bar> * sqrt S" .
  have "a\<^sup>2 + (b + e)\<^sup>2 + c\<^sup>2 = S + 2 * (e * b) + e\<^sup>2"
    by (simp add: S_def power2_eq_square algebra_simps)
  also have "\<dots> \<le> S + 2 * (\<bar>e\<bar> * sqrt S) + e\<^sup>2" using eb by simp
  also have "\<dots> = (sqrt S + \<bar>e\<bar>)\<^sup>2"
    using S0 by (simp add: power2_sum algebra_simps)
  finally have "sqrt (a\<^sup>2 + (b + e)\<^sup>2 + c\<^sup>2) \<le> sqrt ((sqrt S + \<bar>e\<bar>)\<^sup>2)"
    by (rule real_sqrt_le_mono)
  also have "\<dots> = sqrt S + \<bar>e\<bar>" using S0 by simp
  finally have "sqrt (a\<^sup>2 + (b + e)\<^sup>2 + c\<^sup>2) \<le> sqrt S + \<bar>e\<bar>" .
  moreover have "distanceTo (q\<lparr>vy := vy q + e\<rparr>) t = sqrt (a\<^sup>2 + (b + e)\<^sup>2 + c\<^sup>2)"
    unfolding distanceTo_def a_def b_def c_def by (simp add: algebra_simps)
  moreover have "distanceTo q t = sqrt S"
    unfolding distanceTo_def S_def a_def b_def c_def by simp
  ultimately show ?thesis by simp
qed

lemma frame_tree_position:
  "InstancedGroup_frame AppMode_TREE elapsed delta i particle pos
     = v_lerp pos (pd_initialPos particle) (delta * 2.5)"
  by (simp add: InstancedGroup_frame_def)

lemma frames_tree_distance:
  "distanceTo ((InstancedGroup_frame AppMode_TREE elapsed delta i particle ^^ n) pos)
       (pd_initialPos particle)
     = \<bar>1 - delta * 2.5\<bar> ^ n * distanceTo pos (pd_initialPos particle)"
proof (induction n)
  case 0
  show ?case by simp
next
  case (Suc n)
  then show ?case
    by (simp add: frame_tree_position distanceTo_v_lerp mult.assoc)
qed

lemma frame_float_distance:
  assumes "md \<noteq> AppMode_TREE"
  shows "distanceTo (InstancedGroup_frame md elapsed delta i particle pos) (pd_scatterPos particle)
     \<le> \<bar>1 - delta * 2.5\<bar> * distanceTo pos (pd_scatterPos particle) + 0.005"
proof -
  let ?p1 = "v_lerp pos (pd_scatterPos particle) (delta * 2.5)"
  let ?e = "sin (elapsed * 0.5 + real i) * 0.005"
  have "\<bar>sin (elapsed * 0.5 + real i)\<bar> \<le> 1" by simp
  then have e: "\<bar>?e\<bar> \<le> 0.005" by (simp add: abs_mult)
  have "distanceTo (InstancedGroup_frame md elapsed delta i particle pos) (pd_scatterPos particle)
      = distanceTo (?p1\<lparr>vy := vy ?p1 + ?e\<rparr>) (pd_scatterPos particle)"
    using assms by (simp add: InstancedGroup_frame_def Let_def)
  also have "\<dots> \<le> distanceTo ?p1 (pd_scatterPos particle) + \<bar>?e\<bar>"
    by (rule shift_y_distance)
  also have "\<dots> \<le> \<bar>1 - delta * 2.5\<bar> * distanceTo pos (pd_scatterPos particle) + 0.005"
    using e by (simp add: distanceTo_v_lerp)
  finally show ?thesis .
qed

lemma lerpSpeed_pos: "0 < update_lerpSpeed md ft p"
  by (simp add: update_lerpSpeed_def)

lemma contraction_factor:
  fixes k dt :: real
  assumes "0 < k" "0 < dt"
  shows "k * dt \<le> 2 \<Longrightarrow> \<bar>1 - k * dt\<bar> \<le> 1" and "k * dt < 2 \<Longrightarrow> \<bar>1 - k * dt\<bar> < 1"
proof -
  have "0 < k * dt" using assms by simp
  then show "k * dt \<le> 2 \<Longrightarrow> \<bar>1 - k * dt\<bar> \<le> 1" and "k * dt < 2 \<Longrightarrow> \<bar>1 - k * dt\<bar> < 1"
    by (simp_all add: abs_le_iff abs_less_iff)
qed

text \<open>
  Claim C6, as stated, fails for a large \<open>dt\<close>, as the first frame after a pause has: with
  \<open>dt = 2\<close> in TREE mode one tick of \<open>Particle.update\<close> takes a particle at distance 1 from
  its tree position to distance 3. It fails for \<open>InstancedGroup\<close> outside TREE mode for
  every \<open>dt\<close>: an ornament resting on its scatter position is floated 0.005 away from it.
\<close>

theorem C6_position_counterexample:
  "(0::real) < 2
   \<and> distanceTo (mesh_position (mesh (example_particle 3 ''BOX'' False)))
        (update_target TREE None example_group (example_particle 3 ''BOX'' False)) = 1
   \<and> distanceTo (mesh_position (mesh (Particle_update example_lookAt 2 TREE None example_camera
          example_clock example_group (example_particle 3 ''BOX'' False))))
        (update_target TREE None example_group (example_particle 3 ''BOX'' False)) = 3
   \<and> distanceTo (pd_scatterPos example_data) (pd_scatterPos example_data) = 0
   \<and> distanceTo (InstancedGroup_frame AppMode_SCATTER pi (1 / 100) 0 example_data
          (pd_scatterPos example_data))
        (pd_scatterPos example_data) = 5 / 1000"
proof -
  have t: "update_target TREE None example_group (example_particle 3 ''BOX'' False)
      = \<lparr>vx = 0, vy = 1, vz = 0\<rparr>"
    by (simp add: update_target_def example_particle_fields)
  have k: "update_lerpSpeed TREE None (example_particle 3 ''BOX'' False) = 2"
    by (simp add: update_lerpSpeed_def)
  have d0: "distanceTo (mesh_position (mesh (example_particle 3 ''BOX'' False)))
        \<lparr>vx = 0, vy = 1, vz = 0\<rparr> = 1"
    by (simp add: example_particle_fields distanceTo_along_y)
  have d1: "distanceTo (mesh_position (mesh (Particle_update example_lookAt 2 TREE None
          example_camera example_clock example_group (example_particle 3 ''BOX'' False))))
        \<lparr>vx = 0, vy = 1, vz = 0\<rparr> = 3"
    using distanceTo_v_lerp [of "mesh_position (mesh (example_particle 3 ''BOX'' False))"
        "\<lparr>vx = 0, vy = 1, vz = 0\<rparr>" "2 * 2"]
    by (simp add: update_position t k d0)
  have s: "sin (pi * 0.5 + real 0) = 1" by simp
  have f: "InstancedGroup_frame AppMode_SCATTER pi (1 / 100) 0 example_data
          (pd_scatterPos example_data) = \<lparr>vx = 2, vy = 5 / 1000, vz = 0\<rparr>"
    by (simp add: InstancedGroup_frame_def Let_def s v_lerp_def example_data_def)
  have d2: "distanceTo \<lparr>vx = 2, vy = 5 / 1000, vz = 0\<rparr> (pd_scatterPos example_data) = 5 / 1000"
    by (simp add: example_data_def distanceTo_along_y)
  have d3: "distanceTo (pd_scatterPos example_data) (pd_scatterPos example_data) = 0"
    by (simp add: distanceTo_def)
  show ?thesis
    by (simp only: t d0 d1 f d2 d3) simp
qed

text \<open>
  Claim C6, amended. With mode, focus target, group and formation targets held constant,
  one tick of \<open>Particle.update\<close> multiplies the distance of the particle to its target
  position by \<open>|1 - speed * dt|\<close>, where the speed is 5 for the focused particle in FOCUS
  and 2 otherwise. So for every \<open>dt > 0\<close> with \<open>speed * dt \<le> 2\<close> a tick does not increase
  the distance, and for \<open>speed * dt < 2\<close> (that is \<open>dt < 1\<close>, or \<open>dt < 0.4\<close> for the
  focused particle) repeated ticking brings the position arbitrarily close to the target.
  The same holds for \<open>InstancedGroup\<close> in TREE mode with speed 2.5; outside TREE mode its
  frame adds a float offset of at most 0.005 to y, so the distance after a frame is at
  most \<open>|1 - 2.5 * delta|\<close> times the distance before, plus 0.005.
\<close>

theorem C6_position_convergence:
  "distanceTo (mesh_position (mesh (Particle_update lookAt dt md ft camera clock mainGroup p)))
       (update_target md ft mainGroup p)
     = \<bar>1 - update_lerpSpeed md ft p * dt\<bar>
         * distanceTo (mesh_position (mesh p)) (update_target md ft mainGroup p)
   \<and> update_lerpSpeed md ft p = (if md = FOCUS \<and> Some (mesh_id (mesh p)) = ft then 5 else 2)
   \<and> (0 < dt \<and> update_lerpSpeed md ft p * dt \<le> 2 \<longrightarrow>
        distanceTo (mesh_position (mesh (Particle_update lookAt dt md ft camera clock mainGroup p)))
          (update_target md ft mainGroup p)
        \<le> distanceTo (mesh_position (mesh p)) (update_target md ft mainGroup p))
   \<and> (0 < dt \<and> update_lerpSpeed md ft p * dt < 2 \<and> 0 < eps \<longrightarrow>
        (\<exists>N. \<forall>n\<ge>N.
           distanceTo (mesh_position (mesh
               ((Particle_update lookAt dt md ft camera clock mainGroup ^^ n) p)))
             (update_target md ft mainGroup p) < eps))
   \<and> distanceTo (InstancedGroup_frame AppMode_TREE elapsed delta i particle pos)
        (pd_initialPos particle)
      = \<bar>1 - delta * 2.5\<bar> * distanceTo pos (pd_initialPos particle)
   \<and> (0 < delta \<and> delta * 2.5 \<le> 2 \<longrightarrow>
        distanceTo (InstancedGroup_frame AppMode_TREE elapsed delta i particle pos)
          (pd_initialPos particle)
        \<le> distanceTo pos (pd_initialPos particle))
   \<and> (0 < delta \<and> delta * 2.5 < 2 \<and> 0 < eps \<longrightarrow>
        (\<exists>N. \<forall>n\<ge>N.
           distanceTo ((InstancedGroup_frame AppMode_TREE elapsed delta i particle ^^ n) pos)
             (pd_initialPos particle) < eps))
   \<and> (amd \<noteq> AppMode_TREE \<longrightarrow>
        distanceTo (InstancedGroup_frame amd elapsed delta i particle pos) (pd_scatterPos particle)
        \<le> \<bar>1 - delta * 2.5\<bar> * distanceTo pos (pd_scatterPos particle) + 0.005)"
proof -
  let ?k = "update_lerpSpeed md ft p"
  let ?T = "update_target md ft mainGroup p"
  let ?d = "distanceTo (mesh_position (mesh p)) ?T"
  have one: "distanceTo (mesh_position (mesh
        (Particle_update lookAt dt md ft camera clock mainGroup p))) ?T
      = \<bar>1 - ?k * dt\<bar> * ?d"
    by (simp add: update_position distanceTo_v_lerp)
  have speed: "?k = (if md = FOCUS \<and> Some (mesh_id (mesh p)) = ft then 5 else 2)"
    by (simp add: update_lerpSpeed_def)
  have mono: "0 < dt \<and> ?k * dt \<le> 2 \<longrightarrow>
      distanceTo (mesh_position (mesh
        (Particle_update lookAt dt md ft camera clock mainGroup p))) ?T \<le> ?d"
  proof
    assume h: "0 < dt \<and> ?k * dt \<le> 2"
    then have "\<bar>1 - ?k * dt\<bar> \<le> 1"
      using contraction_factor(1) [OF lerpSpeed_pos, of dt md ft p] by simp
    then have "\<bar>1 - ?k * dt\<bar> * ?d \<le> 1 * ?d"
      by (intro mult_right_mono distanceTo_nonneg)
    then show "distanceTo (mesh_position (mesh
        (Particle_update lookAt dt md ft camera clock mainGroup p))) ?T \<le> ?d"
      by (simp add: one)
  qed
  have conv: "0 < dt \<and> ?k * dt < 2 \<and> 0 < eps \<longrightarrow>
      (\<exists>N. \<forall>n\<ge>N. distanceTo (mesh_position (mesh
          ((Particle_update lookAt dt md ft camera clock mainGroup ^^ n) p))) ?T < eps)"
  proof
    assume h: "0 < dt \<and> ?k * dt < 2 \<and> 0 < eps"
    then have "\<bar>1 - ?k * dt\<bar> < 1"
      using contraction_factor(2) [OF lerpSpeed_pos, of dt md ft p] by simp
    with h have "\<exists>N. \<forall>n\<ge>N. \<bar>1 - ?k * dt\<bar> ^ n * ?d < eps"
      by (intro geometric_small distanceTo_nonneg) simp_all
    then show "\<exists>N. \<forall>n\<ge>N. distanceTo (mesh_position (mesh
          ((Particle_update lookAt dt md ft camera clock mainGroup ^^ n) p))) ?T < eps"
      by (simp add: ticks_position)
  qed
  let ?I = "pd_initialPos particle"
  have ione: "distanceTo (InstancedGroup_frame AppMode_TREE elapsed delta i particle pos) ?I
      = \<bar>1 - delta * 2.5\<bar> * distanceTo pos ?I"
    by (simp add: frame_tree_position distanceTo_v_lerp)
  have imono: "0 < delta \<and> delta * 2.5 \<le> 2 \<longrightarrow>
      distanceTo (InstancedGroup_frame AppMode_TREE elapsed delta i particle pos) ?I
        \<le> distanceTo pos ?I"
  proof
    assume h: "0 < delta \<and> delta * 2.5 \<le> 2"
    then have "\<bar>1 - delta * 2.5\<bar> \<le> 1" by (simp add: abs_le_iff)
    then have "\<bar>1 - delta * 2.5\<bar> * distanceTo pos ?I \<le> 1 * distanceTo pos ?I"
      by (intro mult_right_mono distanceTo_nonneg)
    then show "distanceTo (InstancedGroup_frame AppMode_TREE elapsed delta i particle pos) ?I
        \<le> distanceTo pos ?I"
      by (simp add: ione)
  qed
  have iconv: "0 < delta \<and> delta * 2.5 < 2 \<and> 0 < eps \<longrightarrow>
      (\<exists>N. \<forall>n\<ge>N.
         distanceTo ((InstancedGroup_frame AppMode_TREE elapsed delta i particle ^^ n) pos) ?I
           < eps)"
  proof
    assume h: "0 < delta \<and> delta * 2.5 < 2 \<and> 0 < eps"
    then have "\<bar>1 - delta * 2.5\<bar> < 1" by (simp add: abs_less_iff)
    with h have "\<exists>N. \<forall>n\<ge>N. \<bar>1 - delta * 2.5\<bar> ^ n * distanceTo pos ?I < eps"
      by (intro geometric_small distanceTo_nonneg) simp_all
    then show "\<exists>N. \<forall>n\<ge>N.
         distanceTo ((InstancedGroup_frame AppMode_TREE elapsed delta i particle ^^ n) pos) ?I
           < eps"
      by (simp only: frames_tree_distance)
  qed
  have float: "amd \<noteq> AppMode_TREE \<longrightarrow>
        distanceTo (InstancedGroup_frame amd elapsed delta i particle pos) (pd_scatterPos particle)
        \<le> \<bar>1 - delta * 2.5\<bar> * distanceTo pos (pd_scatterPos particle) + 0.005"
    using frame_float_distance [of amd elapsed delta i particle pos] by blast
  show ?thesis
    by (intro conjI one speed mono conv ione imono iconv float)
qed

theorem C6_position_convergence_witness:
  "(0::real) < 1 / 10
   \<and> update_lerpSpeed TREE None (example_particle 3 ''BOX'' False) * (1 / 10) < 2
   \<and> (\<exists>N. \<forall>n\<ge>N.
         distanceTo (mesh_position (mesh
             ((Particle_update example_lookAt (1 / 10) TREE None example_camera example_clock
                 example_group ^^ n) (example_particle 3 ''BOX'' False))))
           (update_target TREE None example_group (example_particle 3 ''BOX'' False)) < 1 / 100)
   \<and> distanceTo (mesh_position (mesh (Particle_update example_lookAt (1 / 10) TREE None
          example_camera example_clock example_group (example_particle 3 ''BOX'' False))))
        (update_target TREE None example_group (example_particle 3 ''BOX'' False))
      \<le> distanceTo (mesh_position (mesh (example_particle 3 ''BOX'' False)))
          (update_target TREE None example_group (example_particle 3 ''BOX'' False))"
proof -
  have k: "update_lerpSpeed TREE None (example_particle 3 ''BOX'' False) * (1 / 10) < 2"
    "update_lerpSpeed TREE None (example_particle 3 ''BOX'' False) * (1 / 10) \<le> 2"
    by (simp_all add: update_lerpSpeed_def)
  have pos: "(0::real) < 1 / 10" "(0::real) < 1 / 100" by simp_all
  note t = C6_position_convergence [of example_lookAt "1 / 10" TREE None example_camera
      example_clock example_group "example_particle 3 ''BOX'' False" "1 / 100"
      0 "1 / 10" 0 example_data origin AppMode_SCATTER]
  have a: "\<exists>N. \<forall>n\<ge>N.
         distanceTo (mesh_position (mesh
             ((Particle_update example_lookAt (1 / 10) TREE None example_camera example_clock
                 example_group ^^ n) (example_particle 3 ''BOX'' False))))
           (update_target TREE None example_group (example_particle 3 ''BOX'' False)) < 1 / 100"
    using t k(1) pos by blast
  have b: "distanceTo (mesh_position (mesh (Particle_update example_lookAt (1 / 10) TREE None
          example_camera example_clock example_group (example_particle 3 ''BOX'' False))))
        (update_target TREE None example_group (example_particle 3 ''BOX'' False))
      \<le> distanceTo (mesh_position (mesh (example_particle 3 ''BOX'' False)))
          (update_target TREE None example_group (example_particle 3 ''BOX'' False))"
    using t k(2) pos by blast
  show ?thesis
    by (intro conjI pos(1) k(1) a b)
qed

section \<open>Scatter positions\<close>

lemma v_length_spherical: "v_length (spherical r theta phi) = \<bar>r\<bar>"
proof -
  have "(r * sin phi * cos theta)\<^sup>2 + (r * sin phi * sin theta)\<^sup>2 + (r * cos phi)\<^sup>2
      = r\<^sup>2"
    using sin_cos_squared_add [of theta] sin_cos_squared_add [of phi] by algebra
  then show ?thesis
    by (simp add: v_length_def spherical_def Vector3_new_def)
qed

lemma calculateScatterPosition_spherical:
  "calculateScatterPosition u_theta u_phi u_r =
     spherical (CONFIG_SCATTER_RADIUS * root 3 u_r) (u_theta * (pi * 2)) (u_phi * pi)"
  by (simp add: calculateScatterPosition_def spherical_def randFloat_def Let_def)

lemma calculatePositions_scatter_spherical:
  "calculatePositions_scatter dust u_r u_theta u_phi =
     spherical (calculatePositions_rScatter dust u_r) (u_theta * pi * 2) (arccos (2 * u_phi - 1))"
  by (simp add: calculatePositions_scatter_def spherical_def Let_def)

lemma scatter_radius:
  assumes "0 \<le> u_r" "u_r < 1"
  shows "v_length (calculateScatterPosition u_theta u_phi u_r) = CONFIG_SCATTER_RADIUS * root 3 u_r"
    and "v_length (calculateScatterPosition u_theta u_phi u_r) < CONFIG_SCATTER_RADIUS"
    and "v_length (calculateScatterPosition u_theta u_phi u_r) \<le> CONFIG_SCATTER_RADIUS"
proof -
  have r0: "0 \<le> root 3 u_r" using assms by (simp add: real_root_ge_zero)
  have r1: "root 3 u_r < 1" using assms by simp
  show a: "v_length (calculateScatterPosition u_theta u_phi u_r)
      = CONFIG_SCATTER_RADIUS * root 3 u_r"
    using r0 by (simp add: calculateScatterPosition_spherical v_length_spherical
        CONFIG_SCATTER_RADIUS_def abs_mult)
  show b: "v_length (calculateScatterPosition u_theta u_phi u_r) < CONFIG_SCATTER_RADIUS"
    using r1 by (simp add: a CONFIG_SCATTER_RADIUS_def)
  then show "v_length (calculateScatterPosition u_theta u_phi u_r) \<le> CONFIG_SCATTER_RADIUS"
    by simp
qed

lemma generateParticles_loop_invariant:
  assumes "\<forall>k. 0 \<le> rnd k \<and> rnd k < 1"
    and "\<forall>p \<in> set particles. v_length (pd_scatterPos p) \<le> CONFIG_SCATTER_RADIUS"
  shows "\<forall>p \<in> set (generateParticles_loop i count rnd particles).
           v_length (pd_scatterPos p) \<le> CONFIG_SCATTER_RADIUS"
  using assms
proof (induction i count rnd particles rule: generateParticles_loop.induct)
  case (1 i count rnd particles)
  show ?case
  proof (cases "i < count")
    case True
    have "0 \<le> rnd (5 * i + 4)" and "rnd (5 * i + 4) < 1"
      using "1.prems"(1) by blast+
    then have s: "v_length (calculateScatterPosition (rnd (5 * i + 2)) (rnd (5 * i + 3))
        (rnd (5 * i + 4))) \<le> CONFIG_SCATTER_RADIUS"
      by (rule scatter_radius(3))
    show ?thesis
      apply (subst generateParticles_loop.simps)
      apply (simp only: True if_True Let_def)
      apply (simp only: split_beta)
      apply (rule "1.IH" [OF True refl refl refl, simplified split_beta Let_def])
          apply (rule prod.collapse)
         apply (rule prod.collapse)
        apply (rule "1.prems"(1))
      using "1.prems"(2) s apply simp
      done
  next
    case False
    with "1.prems" show ?thesis
      by (subst generateParticles_loop.simps) simp
  qed
qed

lemma generateParticles_loop_length:
  "length (generateParticles_loop i count rnd particles) = length particles + (count - i)"
proof (induction i count rnd particles rule: generateParticles_loop.induct)
  case (1 i count rnd particles)
  show ?case
  proof (cases "i < count")
    case True
    show ?thesis
      apply (subst generateParticles_loop.simps)
      apply (simp only: True if_True Let_def)
      apply (simp only: split_beta)
      apply (subst "1.IH" [OF True refl refl refl, simplified split_beta Let_def])
        apply (rule prod.collapse)
       apply (rule prod.collapse)
      using True apply simp
      done
  next
    case False
    then show ?thesis
      by (subst generateParticles_loop.simps) simp
  qed
qed

lemma processPhotos_scatter:
  assumes "\<forall>k. 0 \<le> rnd k \<and> rnd k < 1"
  shows "\<forall>ph \<in> set (processPhotos urls rnd). v_length (ph_scatterPos ph) \<le> CONFIG_SCATTER_RADIUS"
proof
  fix ph
  assume "ph \<in> set (processPhotos urls rnd)"
  then obtain i where "ph_scatterPos ph =
      calculateScatterPosition (rnd (3 * i)) (rnd (3 * i + 1)) (rnd (3 * i + 2))"
    by (auto simp: processPhotos_def Let_def)
  moreover have "0 \<le> rnd (3 * i + 2)" and "rnd (3 * i + 2) < 1"
    using assms by blast+
  ultimately show "v_length (ph_scatterPos ph) \<le> CONFIG_SCATTER_RADIUS"
    by (simp add: scatter_radius(3))
qed

text \<open>
  In exact arithmetic every point of \<open>calculateScatterPosition\<close> has norm
  \<open>8 * cbrt(u) < 8\<close>, and so has the \<open>scatterPos\<close> of every ornament of
  \<open>generateParticles\<close> and of every photo of \<open>processPhotos\<close>; both lists have one entry
  for each index and each url. The bound is approached as the draw tends to 1, so whether
  the doubles that the program computes keep it turns on the rounding of \<open>Math.cbrt\<close>,
  \<open>Math.sin\<close>, \<open>Math.cos\<close> and the products, which numbers read as reals leave out: this
  lemma says nothing about the last bits of the coordinates returned.
\<close>

lemma scatter_inside_sphere_exact:
  assumes "\<forall>k. 0 \<le> rnd k \<and> rnd k < 1"
  shows "v_length (calculateScatterPosition (rnd a) (rnd b) (rnd c)) \<le> CONFIG_SCATTER_RADIUS
     \<and> CONFIG_SCATTER_RADIUS = 8
     \<and> (\<forall>p \<in> set (generateParticles count rnd). v_length (pd_scatterPos p) \<le> CONFIG_SCATTER_RADIUS)
     \<and> (\<forall>ph \<in> set (processPhotos urls rnd). v_length (ph_scatterPos ph) \<le> CONFIG_SCATTER_RADIUS)
     \<and> length (generateParticles count rnd) = count
     \<and> length (processPhotos urls rnd) = length urls"
proof -
  have "0 \<le> rnd c" and "rnd c < 1" using assms by blast+
  then have one: "v_length (calculateScatterPosition (rnd a) (rnd b) (rnd c))
      \<le> CONFIG_SCATTER_RADIUS"
    by (rule scatter_radius(3))
  have g: "\<forall>p \<in> set (generateParticles count rnd).
      v_length (pd_scatterPos p) \<le> CONFIG_SCATTER_RADIUS"
    unfolding generateParticles_def
    by (rule generateParticles_loop_invariant [OF assms]) simp
  have l: "length (generateParticles count rnd) = count"
    by (simp add: generateParticles_def generateParticles_loop_length)
  have lp: "length (processPhotos urls rnd) = length urls"
    by (simp add: processPhotos_def)
  show ?thesis
    by (intro conjI one g processPhotos_scatter [OF assms] l lp)
       (simp add: CONFIG_SCATTER_RADIUS_def)
qed

section \<open>Tree positions\<close>

lemma horizontalRadius_ring:
  "horizontalRadius (Vector3_new (cos a * r) y (sin a * r)) = \<bar>r\<bar>"
proof -
  have "(cos a * r)\<^sup>2 + (sin a * r)\<^sup>2 = r\<^sup>2"
    using sin_cos_squared_add [of a] by algebra
  then show ?thesis
    by (simp add: horizontalRadius_def Vector3_new_def)
qed

lemma calculateTreePosition_parts:
  assumes "0 < n"
  shows "vy (calculateTreePosition (real i) (real n))
           = (real i / real n) * CONFIG_TREE_HEIGHT - CONFIG_TREE_HEIGHT / 2"
    and "i < n \<Longrightarrow> horizontalRadius (calculateTreePosition (real i) (real n))
           = CONFIG_TREE_RADIUS * (1 - real i / real n)"
proof -
  show "vy (calculateTreePosition (real i) (real n))
           = (real i / real n) * CONFIG_TREE_HEIGHT - CONFIG_TREE_HEIGHT / 2"
    by (simp add: calculateTreePosition_def Let_def Vector3_new_def)
  assume "i < n"
  then have "real i / real n < 1" by simp
  then have r: "0 \<le> CONFIG_TREE_RADIUS * (1 - real i / real n)"
    by (simp add: CONFIG_TREE_RADIUS_def)
  have "horizontalRadius (calculateTreePosition (real i) (real n))
      = \<bar>CONFIG_TREE_RADIUS * (1 - real i / real n)\<bar>"
    by (simp add: calculateTreePosition_def Let_def horizontalRadius_ring
        CONFIG_TREE_HEIGHT_def)
  with r show "horizontalRadius (calculateTreePosition (real i) (real n))
           = CONFIG_TREE_RADIUS * (1 - real i / real n)"
    by simp
qed

lemma tree_radius_floor:
  assumes "i < n"
  shows "CONFIG_TREE_RADIUS / real n \<le> CONFIG_TREE_RADIUS * (1 - real i / real n)"
proof -
  have "real i + 1 \<le> real n" using assms by simp
  then have "1 \<le> real n - real i" by simp
  then have "1 / real n \<le> (real n - real i) / real n"
    using assms by (intro divide_right_mono) simp_all
  also have "\<dots> = 1 - real i / real n"
    using assms by (simp add: diff_divide_distrib)
  finally have "5 * (1 / real n) \<le> 5 * (1 - real i / real n)" by simp
  then show ?thesis by (simp add: CONFIG_TREE_RADIUS_def)
qed

lemma biased_t:
  fixes u :: real
  assumes "0 \<le> u" "u < 1"
  shows "0 \<le> u powr 0.8" and "u powr 0.8 < 1"
proof -
  show "0 \<le> u powr 0.8" by simp
  have "u powr 0.8 < 1 powr 0.8"
    using assms by (intro powr_less_mono2) simp_all
  then show "u powr 0.8 < 1" by simp
qed

lemma calculatePositions_tree_parts:
  assumes "0 \<le> u_r"
  shows "vy (calculatePositions_tree u_t u_angle u_r)
           = (u_t powr 0.8) * CONFIG_particles_treeHeight - CONFIG_particles_treeHeight / 2"
    and "horizontalRadius (calculatePositions_tree u_t u_angle u_r)
           = max (CONFIG_particles_treeRadius * (1 - u_t powr 0.8)) 0.5 * (0.8 + u_r * 0.4)"
    and "0.4 \<le> horizontalRadius (calculatePositions_tree u_t u_angle u_r)"
proof -
  let ?m = "max (CONFIG_particles_treeRadius * (1 - u_t powr 0.8)) 0.5"
  have m: "calculatePositions_rMax (u_t powr 0.8) = ?m"
    by (simp add: calculatePositions_rMax_def Let_def max_def)
  have m5: "0.5 \<le> ?m" by simp
  have f: "0.8 \<le> 0.8 + u_r * 0.4" using assms by simp
  have "0.5 * 0.8 \<le> ?m * (0.8 + u_r * 0.4)"
    using m5 f by (intro mult_mono) simp_all
  then have lower: "0.4 \<le> ?m * (0.8 + u_r * 0.4)" by simp
  show "vy (calculatePositions_tree u_t u_angle u_r)
           = (u_t powr 0.8) * CONFIG_particles_treeHeight - CONFIG_particles_treeHeight / 2"
    by (simp add: calculatePositions_tree_def Let_def Vector3_new_def)
  have "horizontalRadius (calculatePositions_tree u_t u_angle u_r)
      = \<bar>?m * (0.8 + u_r * 0.4)\<bar>"
    unfolding calculatePositions_tree_def Let_def horizontalRadius_ring m ..
  with lower show h: "horizontalRadius (calculatePositions_tree u_t u_angle u_r)
           = ?m * (0.8 + u_r * 0.4)"
    by simp
  with lower show "0.4 \<le> horizontalRadius (calculatePositions_tree u_t u_angle u_r)"
    by simp
qed

lemma tree_monotone:
  assumes "i < j" "j < n"
  shows "vy (calculateTreePosition (real i) (real n)) < vy (calculateTreePosition (real j) (real n))"
    and "horizontalRadius (calculateTreePosition (real j) (real n))
           < horizontalRadius (calculateTreePosition (real i) (real n))"
proof -
  have n: "0 < n" and i: "i < n" using assms by simp_all
  have q: "real i / real n < real j / real n"
    using assms by (intro divide_strict_right_mono) simp_all
  have up: "a * 14 - 14 / 2 < b * 14 - 14 / 2" if "a < b" for a b :: real
    using that by simp
  have down: "5 * (1 - b) < 5 * (1 - a)" if "a < b" for a b :: real
    using that by simp
  show "vy (calculateTreePosition (real i) (real n)) < vy (calculateTreePosition (real j) (real n))"
    unfolding calculateTreePosition_parts(1) [OF n] CONFIG_TREE_HEIGHT_def
    by (rule up [OF q])
  show "horizontalRadius (calculateTreePosition (real j) (real n))
           < horizontalRadius (calculateTreePosition (real i) (real n))"
    unfolding calculateTreePosition_parts(2) [OF n assms(2)] calculateTreePosition_parts(2) [OF n i]
      CONFIG_TREE_RADIUS_def
    by (rule down [OF q])
qed

text \<open>
  Claim C3, as stated, fails: \<open>calculateTreePosition\<close> does not clamp its radius. At
  index 449 of 450 the radius is 1/90, where the clamp of \<open>Particle.calculatePositions\<close>
  gives 0.5 at the same fraction of the height, and no positive floor holds for every
  total.
\<close>

theorem C3_no_clamp_counterexample:
  "horizontalRadius (calculateTreePosition (real (449::nat)) (real (450::nat))) = 1 / 90
   \<and> calculatePositions_rMax (449 / 450) = 1 / 2
   \<and> \<not> (\<exists>floor>0. \<forall>n i. i < n \<longrightarrow>
            floor \<le> horizontalRadius (calculateTreePosition (real i) (real n)))"
proof -
  have a: "horizontalRadius (calculateTreePosition (real (449::nat)) (real (450::nat))) = 1 / 90"
    using calculateTreePosition_parts(2) [of 450 449]
    by (simp add: CONFIG_TREE_RADIUS_def)
  have b: "calculatePositions_rMax (449 / 450) = 1 / 2"
    by (simp add: calculatePositions_rMax_def CONFIG_particles_treeRadius_def Let_def)
  have c: "\<not> (\<exists>floor>0. \<forall>n i. i < n \<longrightarrow>
            floor \<le> horizontalRadius (calculateTreePosition (real i) (real n)))"
  proof
    assume "\<exists>floor>0. \<forall>n i. i < n \<longrightarrow>
            floor \<le> horizontalRadius (calculateTreePosition (real i) (real n))"
    then obtain f :: real where f: "0 < f"
      and all: "\<And>n i. i < n \<Longrightarrow> f \<le> horizontalRadius (calculateTreePosition (real i) (real n))"
      by blast
    obtain m :: nat where m: "5 / f < real m"
      using reals_Archimedean2 by blast
    have "0 < 5 / f" using f by simp
    with m have mpos: "0 < m" by (cases m) simp_all
    then have lt: "m - 1 < m" by simp
    have "horizontalRadius (calculateTreePosition (real (m - 1)) (real m))
        = CONFIG_TREE_RADIUS * (1 - real (m - 1) / real m)"
      by (rule calculateTreePosition_parts(2) [OF mpos lt])
    also have "\<dots> = 5 / real m"
      using mpos by (simp add: CONFIG_TREE_RADIUS_def of_nat_diff field_simps)
    also have "\<dots> < f"
      using m f mpos by (simp add: field_simps)
    finally have "horizontalRadius (calculateTreePosition (real (m - 1)) (real m)) < f" .
    with all [OF lt] show False by simp
  qed
  show ?thesis
    by (intro conjI a b c)
qed

text \<open>
  Claim C3, amended. For every index with \<open>0 \<le> index < total\<close>, the position that
  \<open>calculateTreePosition\<close> returns has \<open>y = (index/total) * height - height/2\<close> and lies at
  the horizontal radius \<open>radius * (1 - index/total)\<close>, with height 14 and radius 5. This
  radius is not clamped: it is positive, and falls to \<open>radius/total\<close> at the last index.
  As the index increases, \<open>y\<close> strictly increases and the radius strictly decreases, for
  10 particles as for every total. The randomized variant \<open>Particle.calculatePositions\<close>
  biases \<open>t\<close> by the power 0.8, keeping it in \<open>[0, 1)\<close>, puts \<open>y\<close> at \<open>t * 24 - 12\<close>,
  clamps the maximum radius \<open>8 * (1 - t)\<close> to the floor 0.5 and jitters the radius
  between 0.8 and 1.2 of that maximum, so that its radius is at least 0.4.
\<close>

theorem C3_tree_formation:
  assumes "i < n"
  shows "vy (calculateTreePosition (real i) (real n))
           = (real i / real n) * CONFIG_TREE_HEIGHT - CONFIG_TREE_HEIGHT / 2
     \<and> horizontalRadius (calculateTreePosition (real i) (real n))
           = CONFIG_TREE_RADIUS * (1 - real i / real n)
     \<and> 0 < horizontalRadius (calculateTreePosition (real i) (real n))
     \<and> horizontalRadius (calculateTreePosition (real (n - 1)) (real n))
           = CONFIG_TREE_RADIUS / real n
     \<and> CONFIG_TREE_HEIGHT = 14 \<and> CONFIG_TREE_RADIUS = 5
     \<and> (i < j \<and> j < n \<longrightarrow>
          vy (calculateTreePosition (real i) (real n)) < vy (calculateTreePosition (real j) (real n))
          \<and> horizontalRadius (calculateTreePosition (real j) (real n))
              < horizontalRadius (calculateTreePosition (real i) (real n)))
     \<and> (0 \<le> u_t \<and> u_t < 1 \<and> 0 \<le> u_r \<and> u_r < 1 \<longrightarrow>
          0 \<le> u_t powr 0.8 \<and> u_t powr 0.8 < 1
          \<and> vy (calculatePositions_tree u_t u_angle u_r) = (u_t powr 0.8) * 24 - 12
          \<and> horizontalRadius (calculatePositions_tree u_t u_angle u_r)
              = max (8 * (1 - u_t powr 0.8)) 0.5 * (0.8 + u_r * 0.4)
          \<and> 0.8 * max (8 * (1 - u_t powr 0.8)) 0.5
              \<le> horizontalRadius (calculatePositions_tree u_t u_angle u_r)
          \<and> horizontalRadius (calculatePositions_tree u_t u_angle u_r)
              \<le> 1.2 * max (8 * (1 - u_t powr 0.8)) 0.5
          \<and> 0.4 \<le> horizontalRadius (calculatePositions_tree u_t u_angle u_r))"
proof -
  have n: "0 < n" using assms by simp
  note y = calculateTreePosition_parts(1) [OF n, of i]
  note r = calculateTreePosition_parts(2) [OF n assms]
  have "0 < CONFIG_TREE_RADIUS / real n"
    using n by (simp add: CONFIG_TREE_RADIUS_def)
  with tree_radius_floor [OF assms]
  have c: "0 < horizontalRadius (calculateTreePosition (real i) (real n))"
    by (simp add: r)
  have last: "n - 1 < n" using n by simp
  have lastr: "CONFIG_TREE_RADIUS * (1 - real (n - 1) / real n) = CONFIG_TREE_RADIUS / real n"
    using n by (simp add: CONFIG_TREE_RADIUS_def of_nat_diff field_simps)
  have f: "horizontalRadius (calculateTreePosition (real (n - 1)) (real n))
           = CONFIG_TREE_RADIUS / real n"
    unfolding calculateTreePosition_parts(2) [OF n last] by (rule lastr)
  have k: "CONFIG_TREE_HEIGHT = 14" "CONFIG_TREE_RADIUS = 5"
    by (simp_all add: CONFIG_TREE_HEIGHT_def CONFIG_TREE_RADIUS_def)
  have m: "i < j \<and> j < n \<longrightarrow>
          vy (calculateTreePosition (real i) (real n)) < vy (calculateTreePosition (real j) (real n))
          \<and> horizontalRadius (calculateTreePosition (real j) (real n))
              < horizontalRadius (calculateTreePosition (real i) (real n))"
    using tree_monotone [of i j n] by blast
  have v: "0 \<le> u_t \<and> u_t < 1 \<and> 0 \<le> u_r \<and> u_r < 1 \<longrightarrow>
          0 \<le> u_t powr 0.8 \<and> u_t powr 0.8 < 1
          \<and> vy (calculatePositions_tree u_t u_angle u_r) = (u_t powr 0.8) * 24 - 12
          \<and> horizontalRadius (calculatePositions_tree u_t u_angle u_r)
              = max (8 * (1 - u_t powr 0.8)) 0.5 * (0.8 + u_r * 0.4)
          \<and> 0.8 * max (8 * (1 - u_t powr 0.8)) 0.5
              \<le> horizontalRadius (calculatePositions_tree u_t u_angle u_r)
          \<and> horizontalRadius (calculatePositions_tree u_t u_angle u_r)
              \<le> 1.2 * max (8 * (1 - u_t powr 0.8)) 0.5
          \<and> 0.4 \<le> horizontalRadius (calculatePositions_tree u_t u_angle u_r)"
  proof
    assume h: "0 \<le> u_t \<and> u_t < 1 \<and> 0 \<le> u_r \<and> u_r < 1"
    then have ur: "0 \<le> u_r" "u_r < 1" by simp_all
    let ?m = "max (8 * (1 - u_t powr 0.8)) 0.5"
    have m0: "0 \<le> ?m" by simp
    note p = calculatePositions_tree_parts [OF ur(1), of u_t u_angle]
    have hr: "horizontalRadius (calculatePositions_tree u_t u_angle u_r)
        = ?m * (0.8 + u_r * 0.4)"
      using p(2) by (simp add: CONFIG_particles_treeRadius_def)
    have lo: "?m * 0.8 \<le> ?m * (0.8 + u_r * 0.4)"
      using ur m0 by (intro mult_left_mono) simp_all
    have hi: "?m * (0.8 + u_r * 0.4) \<le> ?m * 1.2"
      using ur m0 by (intro mult_left_mono) simp_all
    show "0 \<le> u_t powr 0.8 \<and> u_t powr 0.8 < 1
          \<and> vy (calculatePositions_tree u_t u_angle u_r) = (u_t powr 0.8) * 24 - 12
          \<and> horizontalRadius (calculatePositions_tree u_t u_angle u_r)
              = max (8 * (1 - u_t powr 0.8)) 0.5 * (0.8 + u_r * 0.4)
          \<and> 0.8 * max (8 * (1 - u_t powr 0.8)) 0.5
              \<le> horizontalRadius (calculatePositions_tree u_t u_angle u_r)
          \<and> horizontalRadius (calculatePositions_tree u_t u_angle u_r)
              \<le> 1.2 * max (8 * (1 - u_t powr 0.8)) 0.5
          \<and> 0.4 \<le> horizontalRadius (calculatePositions_tree u_t u_angle u_r)"
    proof (intro conjI)
      show "0 \<le> u_t powr 0.8" by simp
      show "u_t powr 0.8 < 1" using h by (intro biased_t(2)) simp_all
      show "vy (calculatePositions_tree u_t u_angle u_r) = (u_t powr 0.8) * 24 - 12"
        using p(1) by (simp add: CONFIG_particles_treeHeight_def)
      show "horizontalRadius (calculatePositions_tree u_t u_angle u_r)
              = ?m * (0.8 + u_r * 0.4)"
        by (rule hr)
      show "0.8 * ?m \<le> horizontalRadius (calculatePositions_tree u_t u_angle u_r)"
        using lo by (simp only: hr mult.commute)
      show "horizontalRadius (calculatePositions_tree u_t u_angle u_r) \<le> 1.2 * ?m"
        using hi by (simp only: hr mult.commute)
      show "0.4 \<le> horizontalRadius (calculatePositions_tree u_t u_angle u_r)"
        by (rule p(3))
    qed
  qed
  show ?thesis
    by (intro conjI y r c f k m v)
qed

theorem C3_tree_formation_witness:
  "(3::nat) < 10 \<and> (3::nat) < 4 \<and> (4::nat) < 10
   \<and> vy (calculateTreePosition (real (3::nat)) (real (10::nat))) = - 14 / 5
   \<and> horizontalRadius (calculateTreePosition (real (3::nat)) (real (10::nat))) = 7 / 2
   \<and> vy (calculateTreePosition (real (3::nat)) (real (10::nat)))
       < vy (calculateTreePosition (real (4::nat)) (real (10::nat)))
   \<and> horizontalRadius (calculateTreePosition (real (4::nat)) (real (10::nat)))
       < horizontalRadius (calculateTreePosition (real (3::nat)) (real (10::nat)))
   \<and> (1::real) / 2 < 1
   \<and> 0.4 \<le> horizontalRadius (calculatePositions_tree (1 / 2) (1 / 2) (1 / 2))"
proof -
  have h: "(3::nat) < 10" "(3::nat) < 4" "(4::nat) < 10" "(0::real) \<le> 1 / 2" "(1::real) / 2 < 1"
    by simp_all
  note t = C3_tree_formation [OF h(1), of 4 "1 / 2" "1 / 2" "1 / 2"]
  from t have a: "vy (calculateTreePosition (real (3::nat)) (real (10::nat))) = - 14 / 5"
    by (simp add: CONFIG_TREE_HEIGHT_def)
  from t have b: "horizontalRadius (calculateTreePosition (real (3::nat)) (real (10::nat))) = 7 / 2"
    by (simp add: CONFIG_TREE_RADIUS_def)
  from t h have c: "vy (calculateTreePosition (real (3::nat)) (real (10::nat)))
       < vy (calculateTreePosition (real (4::nat)) (real (10::nat)))"
    and d: "horizontalRadius (calculateTreePosition (real (4::nat)) (real (10::nat)))
       < horizontalRadius (calculateTreePosition (real (3::nat)) (real (10::nat)))"
    by blast+
  from t h have e: "0.4 \<le> horizontalRadius (calculatePositions_tree (1 / 2) (1 / 2) (1 / 2))"
    by blast
  show ?thesis
    by (intro conjI h(1,2,3,5) a b c d e)
qed

section \<open>How the scatter position is drawn\<close>

lemma cbrt_eighth: "root 3 (1 / 8) = (1 / 2 :: real)"
proof -
  have "root 3 ((1 / 2 :: real) ^ 3) = 1 / 2"
    by (rule real_root_power_cancel) simp_all
  then show ?thesis by (simp add: power3_eq_cube)
qed

lemma scatter_z:
  "vz (calculateScatterPosition u_theta u_phi (1 / 8)) = 4 * cos (u_phi * pi)"
  by (simp add: calculateScatterPosition_def Let_def randFloat_def Vector3_new_def
      cbrt_eighth CONFIG_SCATTER_RADIUS_def)

lemma polar_cap_draws:
  "{u. 0 \<le> u \<and> u < 1 \<and> 2 \<le> vz (calculateScatterPosition 0 u (1 / 8))} = {0 .. 1 / 3}"
proof -
  have "(2 \<le> 4 * cos (u * pi)) = (u \<le> 1 / 3)" if "0 \<le> u" "u \<le> 1" for u :: real
  proof -
    have "(2 \<le> 4 * cos (u * pi)) = (cos (pi / 3) \<le> cos (u * pi))"
      unfolding cos_60 by linarith
    also have "\<dots> = (u * pi \<le> pi / 3)"
      using that by (intro cos_mono_le_eq) (simp_all add: mult_le_cancel_right1)
    also have "\<dots> = (u \<le> 1 / 3)" by simp
    finally show ?thesis .
  qed
  then show ?thesis
    by (auto simp: scatter_z)
qed

lemma radius_draws:
  "{u. 0 \<le> u \<and> u < 1 \<and> calculatePositions_rScatter False u \<le> 14} = {0 .. 1 / 2}"
  by (auto simp: calculatePositions_rScatter_def)

text \<open>
  Claim C4, as stated, fails in both scatter functions. \<open>calculateScatterPosition\<close> draws
  \<open>phi\<close> itself uniformly, not its cosine: equal steps of the draw from 0 to 1/3 to 2/3
  take \<open>cos(phi)\<close> (here \<open>z / 4\<close>) from 1 to 1/2 to -1/2, and the draws that land in the
  polar cap \<open>cos(phi) \<ge> 1/2\<close> are those up to 1/3, a third of them where a uniform
  \<open>cos(phi)\<close> puts a quarter. \<open>Particle.calculatePositions\<close> draws the radius linearly, not
  by a cube root: half of the draws give a radius of at most 14, the midpoint of
  \<open>[8, 20]\<close>, while half of the volume of that shell lies within the radius whose cube is
  \<open>(8^3 + 20^3) / 2\<close>, which is larger.
\<close>

theorem C4_scatter_sampling_counterexample:
  "vz (calculateScatterPosition 0 0 (1 / 8)) = 4
   \<and> vz (calculateScatterPosition 0 (1 / 3) (1 / 8)) = 2
   \<and> vz (calculateScatterPosition 0 (2 / 3) (1 / 8)) = - 2
   \<and> {u. 0 \<le> u \<and> u < 1 \<and> 2 \<le> vz (calculateScatterPosition 0 u (1 / 8))} = {0 .. 1 / 3}
   \<and> calculatePositions_rScatter False (1 / 2) = 14
   \<and> (14::real) ^ 3 < (8 ^ 3 + 20 ^ 3) / 2
   \<and> {u. 0 \<le> u \<and> u < 1 \<and> calculatePositions_rScatter False u \<le> 14} = {0 .. 1 / 2}"
proof -
  have a: "vz (calculateScatterPosition 0 0 (1 / 8)) = 4"
    by (simp add: scatter_z)
  have b: "vz (calculateScatterPosition 0 (1 / 3) (1 / 8)) = 2"
    using cos_60 by (simp add: scatter_z)
  have c: "vz (calculateScatterPosition 0 (2 / 3) (1 / 8)) = - 2"
    using cos_120 by (simp add: scatter_z)
  have d: "calculatePositions_rScatter False (1 / 2) = 14"
    by (simp add: calculatePositions_rScatter_def)
  have e: "(14::real) ^ 3 < (8 ^ 3 + 20 ^ 3) / 2" by simp
  show ?thesis
    by (intro conjI a b c polar_cap_draws d e radius_draws)
qed

text \<open>
  Claim C4, amended. Every scatter position is the Cartesian conversion
  \<open>(r sin(phi) cos(theta), r sin(phi) sin(theta), r cos(phi))\<close> of a radius, an azimuth
  \<open>theta\<close> drawn uniformly in \<open>[0, 2 pi)\<close> and a polar angle \<open>phi\<close> in \<open>[0, pi]\<close>.
  \<open>calculateScatterPosition\<close> draws the radius by the cube-root transform
  \<open>8 * cbrt(u)\<close> of a uniform \<open>u\<close>, so that the cube of the radius over 8, the share of
  the ball's volume within it, is the uniform draw itself; its shell starts at radius 0.
  \<open>Particle.calculatePositions\<close> draws \<open>cos(phi) = 2u - 1\<close> uniformly in \<open>[-1, 1)\<close> and
  the radius linearly, \<open>8 + 12u\<close> or for dust \<open>12 + 20u\<close>: uniform in radius, not in
  volume.
\<close>

theorem C4_scatter_sampling:
  assumes "0 \<le> u_theta \<and> u_theta < 1" and "0 \<le> u_phi \<and> u_phi < 1" and "0 \<le> u_r \<and> u_r < 1"
  shows "(\<exists>phi. 0 \<le> phi \<and> phi \<le> pi \<and>
            calculateScatterPosition u_theta u_phi u_r
              = spherical (CONFIG_SCATTER_RADIUS * root 3 u_r) (u_theta * (pi * 2)) phi)
     \<and> 0 \<le> u_theta * (pi * 2) \<and> u_theta * (pi * 2) < 2 * pi
     \<and> v_length (calculateScatterPosition u_theta u_phi u_r) = CONFIG_SCATTER_RADIUS * root 3 u_r
     \<and> (v_length (calculateScatterPosition u_theta u_phi u_r) / CONFIG_SCATTER_RADIUS) ^ 3 = u_r
     \<and> calculatePositions_scatter dust u_r u_theta u_phi
         = spherical (calculatePositions_rScatter dust u_r) (u_theta * pi * 2)
             (arccos (2 * u_phi - 1))
     \<and> cos (arccos (2 * u_phi - 1)) = 2 * u_phi - 1
     \<and> 0 \<le> arccos (2 * u_phi - 1) \<and> arccos (2 * u_phi - 1) \<le> pi
     \<and> calculatePositions_rScatter dust u_r = (if dust then 12 + u_r * 20 else 8 + u_r * 12)
     \<and> v_length (calculatePositions_scatter dust u_r u_theta u_phi)
         = calculatePositions_rScatter dust u_r"
proof -
  have ur: "0 \<le> u_r" "u_r < 1" using assms(3) by simp_all
  have c: "- 1 \<le> 2 * u_phi - 1" "2 * u_phi - 1 \<le> 1" using assms(2) by simp_all
  have p: "\<exists>phi. 0 \<le> phi \<and> phi \<le> pi \<and>
            calculateScatterPosition u_theta u_phi u_r
              = spherical (CONFIG_SCATTER_RADIUS * root 3 u_r) (u_theta * (pi * 2)) phi"
  proof (intro exI conjI)
    show "calculateScatterPosition u_theta u_phi u_r
        = spherical (CONFIG_SCATTER_RADIUS * root 3 u_r) (u_theta * (pi * 2)) (u_phi * pi)"
      by (rule calculateScatterPosition_spherical)
    show "0 \<le> u_phi * pi" using assms(2) by simp
    show "u_phi * pi \<le> pi" using assms(2) by (simp add: mult_le_cancel_right1)
  qed
  have t: "0 \<le> u_theta * (pi * 2)" "u_theta * (pi * 2) < 2 * pi"
    using assms(1) by simp_all
  note l = scatter_radius(1) [OF ur, of u_theta u_phi]
  have "(root 3 u_r) ^ 3 = u_r" using ur by simp
  then have v: "(v_length (calculateScatterPosition u_theta u_phi u_r) / CONFIG_SCATTER_RADIUS) ^ 3
      = u_r"
    by (simp add: l CONFIG_SCATTER_RADIUS_def)
  have r0: "0 \<le> calculatePositions_rScatter dust u_r"
    using ur by (simp add: calculatePositions_rScatter_def)
  have n: "v_length (calculatePositions_scatter dust u_r u_theta u_phi)
         = calculatePositions_rScatter dust u_r"
    using r0 by (simp add: calculatePositions_scatter_spherical v_length_spherical)
  have rs: "calculatePositions_rScatter dust u_r = (if dust then 12 + u_r * 20 else 8 + u_r * 12)"
    by (simp add: calculatePositions_rScatter_def)
  show ?thesis
    by (intro conjI p t l v calculatePositions_scatter_spherical cos_arccos [OF c]
        arccos_lbound [OF c] arccos_ubound [OF c] rs n)
qed

theorem C4_scatter_sampling_witness:
  "(0::real) \<le> 1 / 4 \<and> (1::real) / 4 < 1 \<and> (0::real) \<le> 1 / 2 \<and> (1::real) / 2 < 1
   \<and> (0::real) \<le> 1 / 8 \<and> (1::real) / 8 < 1
   \<and> v_length (calculateScatterPosition (1 / 4) (1 / 2) (1 / 8)) = 4
   \<and> v_length (calculatePositions_scatter False (1 / 8) (1 / 4) (1 / 2)) = 19 / 2"
proof -
  have h: "(0::real) \<le> 1 / 4 \<and> (1::real) / 4 < 1" "(0::real) \<le> 1 / 2 \<and> (1::real) / 2 < 1"
    "(0::real) \<le> 1 / 8 \<and> (1::real) / 8 < 1"
    by simp_all
  note t = C4_scatter_sampling [OF h, of False]
  from t have a1: "v_length (calculateScatterPosition (1 / 4) (1 / 2) (1 / 8))
      = CONFIG_SCATTER_RADIUS * root 3 (1 / 8)"
    by blast
  have a: "v_length (calculateScatterPosition (1 / 4) (1 / 2) (1 / 8)) = 4"
    unfolding a1 by (simp add: cbrt_eighth CONFIG_SCATTER_RADIUS_def)
  from t have b1: "v_length (calculatePositions_scatter False (1 / 8) (1 / 4) (1 / 2))
      = calculatePositions_rScatter False (1 / 8)"
    by blast
  from t have b2: "calculatePositions_rScatter False (1 / 8)
      = (if False then 12 + 1 / 8 * 20 else 8 + 1 / 8 * 12)"
    by blast
  have b: "v_length (calculatePositions_scatter False (1 / 8) (1 / 4) (1 / 2)) = 19 / 2"
    unfolding b1 b2 by simp
  show ?thesis
    using a b by simp
qed

end
